theory Spec2Isabelle
  imports Complex_Main
begin

section \<open>JavaScript values\<close>

text \<open>
  A JavaScript number is modelled as a real or the value NaN. The two infinities and the
  sign of zero are not represented. Rounding is not represented in the arithmetic of the
  integrator; the one product whose floor decides a stride is the engine's, a parameter of
  the runtime below. The strict comparison \<open>!==\<close> holds of NaN and anything, NaN included.
\<close>

datatype jsnum = Num real | NaN

fun strictNe :: "jsnum \<Rightarrow> jsnum \<Rightarrow> bool" where
  "strictNe (Num a) (Num b) = (a \<noteq> b)"
| "strictNe _ _ = True"

fun jsAdd :: "jsnum \<Rightarrow> jsnum \<Rightarrow> jsnum" where
  "jsAdd (Num a) (Num b) = Num (a + b)"
| "jsAdd _ _ = NaN"

fun jsMul :: "jsnum \<Rightarrow> jsnum \<Rightarrow> jsnum" where
  "jsMul (Num a) (Num b) = Num (a * b)"
| "jsMul _ _ = NaN"

text \<open>
  The values an attribute of type \<open>any\<close> can hold. \<open>JObj\<close> stands for every other value
  (arrays, objects, functions), identified by a reference.
\<close>

datatype jsval = JUndefined | JNull | JBool bool | JNum jsnum | JStr string | JObj nat

fun truthy :: "jsval \<Rightarrow> bool" where
  "truthy JUndefined = False"
| "truthy JNull = False"
| "truthy (JBool b) = b"
| "truthy (JNum (Num r)) = (r \<noteq> 0)"
| "truthy (JNum NaN) = False"
| "truthy (JStr s) = (s \<noteq> [])"
| "truthy (JObj _) = True"

text \<open>
  A property read \<open>o[k]\<close> on an object kept as an association list: \<open>None\<close> is
  \<open>undefined\<close>. \<open>strictNeProp\<close> is \<open>!==\<close> on two such reads.
\<close>

fun strictNeProp :: "jsnum option \<Rightarrow> jsnum option \<Rightarrow> bool" where
  "strictNeProp (Some a) (Some b) = strictNe a b"
| "strictNeProp None None = False"
| "strictNeProp _ _ = True"

text \<open>
  An array read \<open>a[i]\<close> with a numeric index: an element when \<open>i\<close> is an integer within
  range, \<open>undefined\<close> (\<open>None\<close>) otherwise; JavaScript raises nothing here.
\<close>

definition arrayAt :: "'a list \<Rightarrow> real \<Rightarrow> 'a option" where
  "arrayAt xs i =
     (if i = of_int \<lfloor>i\<rfloor> \<and> 0 \<le> i \<and> i < real (length xs) then Some (xs ! nat \<lfloor>i\<rfloor>) else None)"

section \<open>Strings\<close>

text \<open>
  Characters stand for the code units below 256. \<open>String.prototype.trim\<close> removes white
  space and line terminators at both ends; below 256 these are the units 9 to 13, 32 and
  160.
\<close>

definition isSpace :: "char \<Rightarrow> bool" where
  "isSpace c = (of_char c \<in> {9::nat, 10, 11, 12, 13, 32, 160})"

definition trim :: "string \<Rightarrow> string" where
  "trim s = rev (dropWhile isSpace (rev (dropWhile isSpace s)))"

definition startsWith :: "string \<Rightarrow> string \<Rightarrow> bool" where
  "startsWith s p = (take (length p) s = p)"

definition isQuote :: "char \<Rightarrow> bool" where
  "isQuote c = (c = CHR 0x27 \<or> c = CHR 0x22)"

text \<open>
  \<open>s.replace(/^['"]|['"]$/g, '')\<close>: one quote character is removed at the start when there
  is one, and one at the end of what remains when there is one.
\<close>

definition stripQuotes :: "string \<Rightarrow> string" where
  "stripQuotes s =
     (let s1 = (case s of [] \<Rightarrow> [] | c # cs \<Rightarrow> if isQuote c then cs else s)
      in if s1 \<noteq> [] \<and> isQuote (last s1) then butlast s1 else s1)"

section \<open>The diagram model and the host runtime\<close>

text \<open>
  The live model of the owning diagram: three objects from names to values. The parameter
  object is a \<open>Record<string, number>\<close>.
\<close>

record kgmodel =
  currentParamValues :: "(string \<times> jsnum) list"
  currentCalcValues :: "(string \<times> jsval) list"
  currentColors :: "(string \<times> jsval) list"

record scope =
  params :: "(string \<times> jsnum) list"
  calcs :: "(string \<times> jsval) list"
  colors :: "(string \<times> jsval) list"

datatype exn = Thrown string

text \<open>
  A compiled formula (\<open>math.EvalFunction\<close>): \<open>evaluate\<close> on a variable binding returns a
  number or throws (\<open>None\<close>).
\<close>

type_synonym evalFunction = "(string \<times> jsnum) list \<Rightarrow> jsnum option"

text \<open>
  What the code calls and the files modelled here do not define, taken as parameters:
  \<^item> \<open>mathCompile\<close> is \<open>math.compile\<close> of the math library: a compiled formula, or the
    exception it throws on a formula it cannot parse;
  \<^item> \<open>updateFunctionString\<close> is the method of that name of the base class \<open>MathFunction\<close>;
  \<^item> \<open>jsFunction expr m\<close> is the JavaScript engine on
    \<open>new Function("params", "calcs", "colors", "with(params){with(calcs){with(colors){return "
    + expr + ";}}}")\<close> applied to the three objects of the model: the value returned, or
    \<open>None\<close> when building or calling the function throws;
  \<^item> \<open>jsTimes a b\<close> is the engine's product \<open>a * b\<close> of two numbers, in IEEE 754 double
    precision: the real product rounded to a double, and so the real product itself
    exactly when that is a double.
\<close>

record runtime =
  mathCompile :: "string \<Rightarrow> exn + evalFunction"
  updateFunctionString :: "string \<Rightarrow> scope \<Rightarrow> exn + string"
  jsFunction :: "string \<Rightarrow> kgmodel \<Rightarrow> jsval option"
  jsTimes :: "real \<Rightarrow> real \<Rightarrow> real"

section \<open>The expression evaluator\<close>

definition evaluateExpr :: "runtime \<Rightarrow> jsval \<Rightarrow> kgmodel \<Rightarrow> jsval" where
  "evaluateExpr rt expr m =
     (case expr of
        JUndefined \<Rightarrow> expr
      | JNull \<Rightarrow> expr
      | JBool _ \<Rightarrow> expr
      | JNum _ \<Rightarrow> expr
      | JStr s \<Rightarrow>
          (let trimmed = trim s
           in if startsWith trimmed [CHR 0x27] \<or> startsWith trimmed [CHR 0x22] \<or>
                 startsWith trimmed ''#'' \<or>
                 startsWith trimmed ''rgb'' \<or> startsWith trimmed ''hsl''
              then JStr (stripQuotes trimmed)
              else (case jsFunction rt s m of Some v \<Rightarrow> v | None \<Rightarrow> expr))
      | JObj _ \<Rightarrow> expr)"

section \<open>The ODE system function\<close>

text \<open>
  A trajectory state \<open>{x, y}\<close>; the fields are named \<open>sx\<close> and \<open>sy\<close> here.
\<close>

record state =
  sx :: jsnum
  sy :: jsnum

text \<open>
  The fields of \<open>ODESystemFunction\<close>. The two compiled formulas are \<open>undefined\<close> (\<open>None\<close>)
  until \<open>generateData\<close> assigns them. The attributes assigned from \<open>evaluateExpr\<close> hold
  whatever it returned. An element of \<open>dots\<close> is \<open>undefined\<close> (\<open>None\<close>) when it was read
  from \<open>data\<close> at an index that is not one of its indices. \<open>graph\<close> is the \<open>hasChanged\<close>
  flag of the owning graph, when there is one.
\<close>

record ode =
  dxdtDef :: string
  dydtDef :: string
  dxdtCompiled :: "evalFunction option"
  dydtCompiled :: "evalFunction option"
  initial :: "jsnum \<times> jsnum"
  steps :: int
  dt :: jsnum
  lastInitial :: "jsnum \<times> jsnum"
  lastParams :: "(string \<times> jsnum) list"
  data :: "state list"
  dots :: "state option list"
  showDots :: jsval
  dotSpacing :: jsval
  dotRadius :: jsval
  dotColor :: jsval
  animation :: jsval
  speed :: jsval
  movingDotColor :: jsval
  movingDotRadius :: jsval
  restartDelay :: jsval
  version :: nat
  hasChanged :: bool
  fnScope :: "scope option"
  graph :: "bool option"

text \<open>
  The definition object handed to the constructor. An optional property that is absent is
  \<open>None\<close>; \<open>setDefaults\<close> (defined outside the files modelled here) gives an absent
  property its default.
\<close>

record odeSystemDefinition =
  def_dxdt :: string
  def_dydt :: string
  def_initial :: "(jsnum \<times> jsnum) option"
  def_steps :: "int option"
  def_dt :: "jsnum option"
  def_showDots :: "jsval option"
  def_dotSpacing :: "jsval option"
  def_dotRadius :: "jsval option"
  def_dotColor :: "jsval option"
  def_animation :: "jsval option"
  def_speed :: "jsval option"
  def_movingDotColor :: "jsval option"
  def_movingDotRadius :: "jsval option"
  def_restartDelay :: "jsval option"
  def_model :: kgmodel

definition setDefault :: "'a option \<Rightarrow> 'a \<Rightarrow> 'a" where
  "setDefault v d = (case v of None \<Rightarrow> d | Some a \<Rightarrow> a)"

definition newODESystemFunction :: "runtime \<Rightarrow> odeSystemDefinition \<Rightarrow> ode" where
  "newODESystemFunction rt d =
     \<lparr> dxdtDef = def_dxdt d,
       dydtDef = def_dydt d,
       dxdtCompiled = None,
       dydtCompiled = None,
       initial = (case def_initial d of None \<Rightarrow> (Num 0, Num 0) | Some p \<Rightarrow> p),
       steps = setDefault (def_steps d) 400,
       dt = setDefault (def_dt d) (Num (5 / 100)),
       lastInitial = (NaN, NaN),
       lastParams = [],
       data = [],
       dots = [],
       showDots = evaluateExpr rt (setDefault (def_showDots d) (JBool False)) (def_model d),
       dotSpacing = evaluateExpr rt (setDefault (def_dotSpacing d) (JNum (Num 60))) (def_model d),
       dotRadius = evaluateExpr rt (setDefault (def_dotRadius d) (JNum (Num 3))) (def_model d),
       dotColor = evaluateExpr rt (setDefault (def_dotColor d) (JStr ''green'')) (def_model d),
       animation = evaluateExpr rt (setDefault (def_animation d) (JBool False)) (def_model d),
       speed = evaluateExpr rt (setDefault (def_speed d) (JNum (Num 1))) (def_model d),
       movingDotColor =
         evaluateExpr rt (setDefault (def_movingDotColor d) (JStr ''red'')) (def_model d),
       movingDotRadius =
         evaluateExpr rt (setDefault (def_movingDotRadius d) (JNum (Num 5))) (def_model d),
       restartDelay =
         evaluateExpr rt (setDefault (def_restartDelay d) (JNum (Num 1000))) (def_model d),
       version = 0,
       hasChanged = False,
       fnScope = None,
       graph = None \<rparr>"

subsection \<open>Derivatives and the RK4 step\<close>

text \<open>
  \<open>deriv\<close> evaluates each compiled formula on \<open>{x: state.x, y: state.y, ...scope.params}\<close>,
  where a parameter named \<open>x\<close> or \<open>y\<close> overrides the state's; a throw inside either
  \<open>try\<close>, also the one of calling \<open>evaluate\<close> on an unassigned formula, leaves 0.
\<close>

definition deriv :: "ode \<Rightarrow> state \<Rightarrow> scope \<Rightarrow> jsnum \<times> jsnum" where
  "deriv fn s sc =
     (let env = params sc @ [(''x'', sx s), (''y'', sy s)];
          dx = (case dxdtCompiled fn of
                  None \<Rightarrow> Num 0
                | Some f \<Rightarrow> (case f env of Some v \<Rightarrow> v | None \<Rightarrow> Num 0));
          dy = (case dydtCompiled fn of
                  None \<Rightarrow> Num 0
                | Some f \<Rightarrow> (case f env of Some v \<Rightarrow> v | None \<Rightarrow> Num 0))
      in (dx, dy))"

text \<open>
  Division, used by the integrator with the divisor 6 only. A nonzero number over zero is
  an infinity in JavaScript, which this model does not represent.
\<close>

fun jsDiv :: "jsnum \<Rightarrow> jsnum \<Rightarrow> jsnum" where
  "jsDiv (Num a) (Num b) = (if b = 0 then NaN else Num (a / b))"
| "jsDiv _ _ = NaN"

definition rk4Step :: "ode \<Rightarrow> state \<Rightarrow> scope \<Rightarrow> jsnum \<Rightarrow> state" where
  "rk4Step fn s sc h =
     (let k1 = deriv fn s sc;
          s2 = \<lparr> sx = jsAdd (sx s) (jsMul (jsMul (Num (1 / 2)) h) (fst k1)),
                 sy = jsAdd (sy s) (jsMul (jsMul (Num (1 / 2)) h) (snd k1)) \<rparr>;
          k2 = deriv fn s2 sc;
          s3 = \<lparr> sx = jsAdd (sx s) (jsMul (jsMul (Num (1 / 2)) h) (fst k2)),
                 sy = jsAdd (sy s) (jsMul (jsMul (Num (1 / 2)) h) (snd k2)) \<rparr>;
          k3 = deriv fn s3 sc;
          s4s = \<lparr> sx = jsAdd (sx s) (jsMul h (fst k3)),
                  sy = jsAdd (sy s) (jsMul h (snd k3)) \<rparr>;
          k4 = deriv fn s4s sc
      in \<lparr> sx = jsAdd (sx s)
                 (jsMul (jsDiv h (Num 6))
                    (jsAdd (jsAdd (jsAdd (fst k1) (jsMul (Num 2) (fst k2)))
                              (jsMul (Num 2) (fst k3))) (fst k4))),
           sy = jsAdd (sy s)
                 (jsMul (jsDiv h (Num 6))
                    (jsAdd (jsAdd (jsAdd (snd k1) (jsMul (Num 2) (snd k2)))
                              (jsMul (Num 2) (snd k3))) (snd k4))) \<rparr>)"

subsection \<open>Data and dots generation\<close>

text \<open>
  The loop \<open>for (let i = 0; i < fn.steps; i++)\<close> of \<open>generateData\<close>, from the counter \<open>i\<close>,
  the current state and the array built so far.
\<close>

function rk4Loop :: "ode \<Rightarrow> scope \<Rightarrow> int \<Rightarrow> state \<Rightarrow> state list \<Rightarrow> state list" where
  "rk4Loop fn sc i s acc =
     (if i < steps fn
      then (let s' = rk4Step fn s sc (dt fn) in rk4Loop fn sc (i + 1) s' (acc @ [s']))
      else acc)"
  by pat_completeness auto
termination
  by (relation "measure (\<lambda>(fn, sc, i, s, acc). nat (steps fn - i))") auto

text \<open>
  \<open>generateData\<close> returns the new array and the object as it leaves it, or the exception
  thrown with the object as it was left: the two compilations are outside every \<open>try\<close>.
\<close>

definition generateData :: "runtime \<Rightarrow> kgmodel \<Rightarrow> ode \<Rightarrow> (exn \<times> ode) + (state list \<times> ode)" where
  "generateData rt m fn0 =
     (let sc = \<lparr> params = currentParamValues m, calcs = currentCalcValues m,
                  colors = currentColors m \<rparr>;
          fn = fn0\<lparr> fnScope := Some sc \<rparr>;
          x0 = (case map_of (params sc) ''px'' of Some v \<Rightarrow> v | None \<Rightarrow> fst (initial fn));
          y0 = (case map_of (params sc) ''py'' of Some v \<Rightarrow> v | None \<Rightarrow> snd (initial fn))
      in case updateFunctionString rt (dxdtDef fn) sc of
           Inl e \<Rightarrow> Inl (e, fn)
         | Inr strx \<Rightarrow>
        (case mathCompile rt strx of
           Inl e \<Rightarrow> Inl (e, fn)
         | Inr fx \<Rightarrow>
        (let fn1 = fn\<lparr> dxdtCompiled := Some fx \<rparr>
         in case updateFunctionString rt (dydtDef fn1) sc of
           Inl e \<Rightarrow> Inl (e, fn1)
         | Inr stry \<Rightarrow>
        (case mathCompile rt stry of
           Inl e \<Rightarrow> Inl (e, fn1)
         | Inr fy \<Rightarrow>
        (let fn2 = fn1\<lparr> dydtCompiled := Some fy \<rparr>;
             st = \<lparr> sx = x0, sy = y0 \<rparr>;
             d = rk4Loop fn2 sc 0 st [st]
         in Inr (d, fn2\<lparr> data := d, version := version fn2 + 1 \<rparr>))))))"

text \<open>
  The loop \<open>for (let i = 0; i < this.data.length; i += dotSpacing)\<close> of \<open>generateDots\<close>.
  The stride is at least 1 wherever \<open>generateDots\<close> runs the loop with a spacing that is
  not a string or an object (lemma \<open>dotStride_ge_1\<close> below); the test \<open>1 \<le> sp\<close> is there
  for the recursion to be well founded and changes nothing at those calls. The sums
  \<open>i += dotSpacing\<close> are exact for an integer stride, the case the statements are about.
\<close>

function dotsLoop :: "state list \<Rightarrow> real \<Rightarrow> real \<Rightarrow> state option list" where
  "dotsLoop d sp i =
     (if 1 \<le> sp \<and> i < real (length d) then arrayAt d i # dotsLoop d sp (i + sp) else [])"
  by pat_completeness auto
termination
  by (relation "measure (\<lambda>(d, sp, i). nat \<lceil>real (length d) - i\<rceil>)") (auto, linarith)

text \<open>
  The number a truthy \<open>dotSpacing\<close> stands for in \<open>dotSpacing < 1\<close>,
  \<open>totalSteps * dotSpacing\<close> and \<open>i += dotSpacing\<close>. A spacing that is a string or an
  object makes these operations convert and concatenate strings; that is not represented,
  and the model says nothing of such a spacing.
\<close>

fun spacingNumber :: "jsval \<Rightarrow> real" where
  "spacingNumber (JNum (Num r)) = r"
| "spacingNumber (JBool True) = 1"
| "spacingNumber _ = undefined"

definition dotStride :: "runtime \<Rightarrow> ode \<Rightarrow> real" where
  "dotStride rt fn =
     (let dotSpacing0 = (if truthy (dotSpacing fn) then spacingNumber (dotSpacing fn) else 10)
      in if dotSpacing0 < 1
         then max 1 (of_int \<lfloor>jsTimes rt (real (length (data fn))) dotSpacing0\<rfloor>)
         else dotSpacing0)"

definition generateDots :: "runtime \<Rightarrow> ode \<Rightarrow> state option list \<times> ode" where
  "generateDots rt fn =
     (if \<not> truthy (showDots fn) \<or> data fn = [] then ([], fn)
      else (let ds = dotsLoop (data fn) (dotStride rt fn) 0 in (ds, fn\<lparr> dots := ds \<rparr>)))"

text \<open>
  \<open>evaluate(t)\<close>: \<open>Math.min(Math.floor(t / this.dt), this.data.length - 1)\<close> and the array
  read at that index. With \<open>dt\<close> zero the quotient is an infinity or NaN, written out: plus
  infinity gives the last index, the others an index that is none of the array's.
\<close>

definition evaluate :: "ode \<Rightarrow> jsnum \<Rightarrow> state option" where
  "evaluate fn t =
     (case (t, dt fn) of
        (Num tv, Num h) \<Rightarrow>
          if h = 0
          then (if 0 < tv then arrayAt (data fn) (real (length (data fn)) - 1) else None)
          else arrayAt (data fn) (min (of_int \<lfloor>tv / h\<rfloor>) (real (length (data fn)) - 1))
      | _ \<Rightarrow> None)"

subsection \<open>Update\<close>

text \<open>
  Modelled from the spec: \<open>super.update(force)\<close>, the update of the base class
  \<open>MathFunction\<close>, is defined outside the files modelled here. The specification of the update
  gate names no effect of the tick on the engine's state ahead of the staleness test, and
  the fields tested are declared by \<open>ODESystemFunction\<close> itself, so the call is taken to
  return the object as it is.
\<close>

definition superUpdate :: "bool \<Rightarrow> ode \<Rightarrow> ode" where
  "superUpdate force fn = fn"

text \<open>
  \<open>update(force)\<close>. The tests \<open>!fn.lastInitial\<close>, \<open>!fn.lastParams\<close> and \<open>!fn.data\<close> are of
  an array or object and never hold. The result is the object, or the exception of
  \<open>generateData\<close> with the object as it was left.
\<close>

definition update :: "runtime \<Rightarrow> kgmodel \<Rightarrow> bool \<Rightarrow> ode \<Rightarrow> (exn \<times> ode) + ode" where
  "update rt m force this =
     (let fn0 = superUpdate force this;
          sc = \<lparr> params = currentParamValues m, calcs = currentCalcValues m,
                  colors = currentColors m \<rparr>;
          fn = fn0\<lparr> fnScope := Some sc \<rparr>;
          x0 = (case map_of (params sc) ''px'' of Some v \<Rightarrow> v | None \<Rightarrow> fst (initial fn));
          y0 = (case map_of (params sc) ''py'' of Some v \<Rightarrow> v | None \<Rightarrow> snd (initial fn));
          changedInitial =
            (strictNe (fst (lastInitial fn)) x0 \<or> strictNe (snd (lastInitial fn)) y0);
          changedParams =
            list_ex (\<lambda>k. strictNeProp (map_of (params sc) k) (map_of (lastParams fn) k))
              (map fst (params sc));
          fn1 = fn\<lparr> showDots := evaluateExpr rt (showDots fn) m \<rparr>;
          fn2 = fn1\<lparr> dotSpacing := evaluateExpr rt (dotSpacing fn1) m \<rparr>;
          fn3 = fn2\<lparr> dotRadius := evaluateExpr rt (dotRadius fn2) m \<rparr>;
          fn4 = fn3\<lparr> dotColor := evaluateExpr rt (dotColor fn3) m \<rparr>;
          fn5 = fn4\<lparr> animation := evaluateExpr rt (animation fn4) m \<rparr>;
          fn6 = fn5\<lparr> speed := evaluateExpr rt (speed fn5) m \<rparr>;
          fn7 = fn6\<lparr> movingDotColor := evaluateExpr rt (movingDotColor fn6) m \<rparr>;
          fn8 = fn7\<lparr> movingDotRadius := evaluateExpr rt (movingDotRadius fn7) m \<rparr>
      in if force \<or> changedInitial \<or> changedParams \<or> data fn8 = []
         then (let fn9 = fn8\<lparr> lastInitial := (x0, y0), lastParams := params sc \<rparr>
               in case generateData rt m fn9 of
                    Inl e \<Rightarrow> Inl e
                  | Inr (d, fn10) \<Rightarrow>
                      (let fn11 = fn10\<lparr> data := d \<rparr>;
                           fn12 = (if truthy (showDots fn11) then snd (generateDots rt fn11)
                                   else fn11)
                       in Inr (fn12\<lparr> hasChanged := True,
                                      graph := map_option (\<lambda>_. True) (graph fn12) \<rparr>)))
         else Inr (fn8\<lparr> hasChanged := False \<rparr>))"

section \<open>The animation scheduler\<close>













section \<open>Vocabulary of the statements\<close>

text \<open>
  A derivative formula compiles in a scope when neither \<open>updateFunctionString\<close> nor
  \<open>math.compile\<close> throws on it.
\<close>

definition formulaCompiles :: "runtime \<Rightarrow> kgmodel \<Rightarrow> string \<Rightarrow> bool" where
  "formulaCompiles rt m f =
     (case updateFunctionString rt f
             \<lparr> params = currentParamValues m, calcs = currentCalcValues m,
               colors = currentColors m \<rparr> of
        Inl e \<Rightarrow> False
      | Inr str \<Rightarrow> (case mathCompile rt str of Inl e \<Rightarrow> False | Inr c \<Rightarrow> True))"

text \<open>The object as a call leaves it, whether the call returns or throws.\<close>

definition objectAfter :: "(exn \<times> ode) + ode \<Rightarrow> ode" where
  "objectAfter r = (case r of Inl (e, fn) \<Rightarrow> fn | Inr fn \<Rightarrow> fn)"


text \<open>
  The stride as the specification words it: \<open>max(1, floor(length * spacing))\<close> for a
  spacing that is a fraction in (0,1), the spacing itself otherwise.
\<close>

definition claimedStride :: "nat \<Rightarrow> real \<Rightarrow> real" where
  "claimedStride n r = (if 0 < r \<and> r < 1 then max 1 (of_int \<lfloor>real n * r\<rfloor>) else r)"

text \<open>The exception a call throws, if it throws.\<close>

definition thrownBy :: "(exn \<times> 'a) + 'b \<Rightarrow> exn option" where
  "thrownBy r = (case r of Inl (e, x) \<Rightarrow> Some e | Inr y \<Rightarrow> None)"

text \<open>
  A sequence of update ticks, each with the model as it is then and its \<open>force\<close> flag,
  the object going from one tick to the next as the tick left it.
\<close>

fun ticks :: "runtime \<Rightarrow> (kgmodel \<times> bool) list \<Rightarrow> ode \<Rightarrow> ode" where
  "ticks rt [] fn = fn"
| "ticks rt ((m, force) # ts) fn = ticks rt ts (objectAfter (update rt m force fn))"


section \<open>Worked inputs\<close>

text \<open>
  A runtime for the worked examples. On the formulas used there it behaves as the library
  and the engine do: \<open>1\<close> and \<open>0\<close> compile to constants, \<open>q\<close> compiles and evaluates to the
  binding of \<open>q\<close>, throwing when there is none, and every other text (such as \<open>1 +\<close>) is
  refused with a syntax error; \<open>a > 1\<close> evaluates against the parameter \<open>a\<close>, and the engine
  throws on every other expression; the one product taken in the examples, 100 by a
  quarter, is a double, so that the engine's product is the real one there.
\<close>

definition exampleRuntime :: runtime where
  "exampleRuntime =
     \<lparr> mathCompile =
         (\<lambda>s. if s = ''1'' then Inr (\<lambda>env. Some (Num 1))
              else if s = ''0'' then Inr (\<lambda>env. Some (Num 0))
              else if s = ''q'' then Inr (\<lambda>env. map_of env ''q'')
              else Inl (Thrown ''SyntaxError'')),
       updateFunctionString = (\<lambda>s sc. Inr s),
       jsFunction =
         (\<lambda>e m. if e = ''a > 1''
                then (case map_of (currentParamValues m) ''a'' of
                        None \<Rightarrow> None
                      | Some NaN \<Rightarrow> Some (JBool False)
                      | Some (Num v) \<Rightarrow> Some (JBool (1 < v)))
                else None),
       jsTimes = (\<lambda>a b. a * b) \<rparr>"

definition exampleModel :: "real \<Rightarrow> kgmodel" where
  "exampleModel v =
     \<lparr> currentParamValues = [(''a'', Num v)], currentCalcValues = [], currentColors = [] \<rparr>"

text \<open>
  A definition with the formulas \<open>1\<close> and \<open>0\<close>, two steps, and the show-dots attribute
  given as the expression \<open>a > 1\<close>; the function object built from it; a model whose only
  parameter is \<open>px\<close>; and that function object holding a trajectory of two states, a dot
  set sampled earlier, and the record of a tick whose model had the parameters \<open>a\<close> and
  \<open>b\<close>.
\<close>

definition exampleDef :: odeSystemDefinition where
  "exampleDef =
     \<lparr> def_dxdt = ''1'', def_dydt = ''0'', def_initial = Some (Num 0, Num 0),
       def_steps = Some 2, def_dt = Some (Num (1 / 10)),
       def_showDots = Some (JStr ''a > 1''), def_dotSpacing = None, def_dotRadius = None,
       def_dotColor = None, def_animation = Some (JBool True), def_speed = None,
       def_movingDotColor = None, def_movingDotRadius = None, def_restartDelay = None,
       def_model = exampleModel 2 \<rparr>"

definition exampleFn :: ode where
  "exampleFn = newODESystemFunction exampleRuntime exampleDef"

definition pxModel :: kgmodel where
  "pxModel = \<lparr> currentParamValues = [(''px'', Num 3)], currentCalcValues = [],
               currentColors = [] \<rparr>"

definition settledFn :: ode where
  "settledFn =
     exampleFn\<lparr> data := [\<lparr> sx = Num 0, sy = Num 0 \<rparr>, \<lparr> sx = Num 1, sy = Num 0 \<rparr>],
                lastInitial := (Num 0, Num 0),
                lastParams := [(''a'', Num 2), (''b'', Num 5)],
                dots := [Some \<lparr> sx = Num 7, sy = Num 7 \<rparr>],
                version := 1 \<rparr>"

text \<open>
  A trajectory of 100 states, and the function object holding it with show-dots on and a
  numeric dot spacing.
\<close>

definition hundredStates :: "state list" where
  "hundredStates = map (\<lambda>i. \<lparr> sx = Num (real i), sy = Num 0 \<rparr>) [0..<100]"

definition dotsFn :: "real \<Rightarrow> ode" where
  "dotsFn r = settledFn\<lparr> data := hundredStates, dotSpacing := JNum (Num r) \<rparr>"

text \<open>The function object of the example with a first formula that does not parse.\<close>

definition badFn :: ode where
  "badFn = exampleFn\<lparr> dxdtDef := ''1 +'' \<rparr>"





section \<open>Properties of the expression evaluator\<close>

lemma trim_keeps_prefix:
  assumes "p \<noteq> []" and "\<forall>c\<in>set p. \<not> isSpace c" and "startsWith s p"
  shows "startsWith (trim s) p"
proof -
  from assms(3) have "s = p @ drop (length p) s"
    unfolding startsWith_def by (metis append_take_drop_id)
  then obtain r where s: "s = p @ r" ..
  from assms(1,2) have front: "dropWhile isSpace (p @ r) = p @ r"
    by (cases p) auto
  have "\<not> isSpace (last p)" using assms(1,2) by simp
  then have rear: "dropWhile isSpace (rev p) = rev p"
    using assms(1) by (cases p rule: rev_cases) auto
  have "\<exists>q. dropWhile isSpace (rev r @ rev p) = q @ rev p"
  proof (cases "\<forall>c\<in>set (rev r). isSpace c")
    case True
    then have "dropWhile isSpace (rev r @ rev p) = dropWhile isSpace (rev p)"
      by (intro dropWhile_append2) simp
    with rear show ?thesis by simp
  next
    case False
    then obtain c where "c \<in> set (rev r)" "\<not> isSpace c" by blast
    then have "dropWhile isSpace (rev r @ rev p) = dropWhile isSpace (rev r) @ rev p"
      by (rule dropWhile_append1)
    then show ?thesis by blast
  qed
  then obtain q where "dropWhile isSpace (rev r @ rev p) = q @ rev p" ..
  then have "trim s = p @ rev q"
    unfolding trim_def s front by simp
  then show ?thesis by (simp add: startsWith_def)
qed

lemma quote_not_space: "isQuote c \<Longrightarrow> \<not> isSpace c"
  by (auto simp: isQuote_def isSpace_def)

lemma trim_quoted:
  assumes "\<forall>c\<in>set ws1. isSpace c" and "\<forall>c\<in>set ws2. isSpace c"
    and "isQuote q" and "isQuote q'"
  shows "trim (ws1 @ q # body @ q' # ws2) = q # body @ [q']"
proof -
  have nq: "\<not> isSpace q" "\<not> isSpace q'"
    using assms(3,4) by (simp_all add: quote_not_space)
  have front: "dropWhile isSpace (ws1 @ q # body @ q' # ws2) = q # body @ q' # ws2"
  proof -
    have "dropWhile isSpace (ws1 @ q # body @ q' # ws2) =
            dropWhile isSpace (q # body @ q' # ws2)"
      by (rule dropWhile_append2) (use assms(1) in simp)
    then show ?thesis using nq(1) by simp
  qed
  have "rev (q # body @ q' # ws2) = rev ws2 @ q' # rev body @ [q]" by simp
  moreover have "dropWhile isSpace (rev ws2 @ q' # rev body @ [q]) = q' # rev body @ [q]"
  proof -
    have "dropWhile isSpace (rev ws2 @ q' # rev body @ [q]) =
            dropWhile isSpace (q' # rev body @ [q])"
      by (rule dropWhile_append2) (use assms(2) in simp)
    then show ?thesis using nq(2) by simp
  qed
  ultimately have "dropWhile isSpace (rev (q # body @ q' # ws2)) = q' # rev body @ [q]"
    by simp
  then show ?thesis unfolding trim_def front by simp
qed

lemma stripQuotes_quoted:
  assumes "isQuote q" and "isQuote q'"
  shows "stripQuotes (q # body @ [q']) = body"
  using assms by (simp add: stripQuotes_def Let_def)

lemma stripQuotes_unquoted:
  assumes "s \<noteq> []" and "\<not> isQuote (hd s)" and "\<not> isQuote (last s)"
  shows "stripQuotes s = s"
  using assms by (cases s) (simp_all add: stripQuotes_def Let_def)

lemma startsWith_quote:
  "isQuote q \<Longrightarrow> startsWith (q # r) [CHR 0x27] \<or> startsWith (q # r) [CHR 0x22]"
  by (auto simp: isQuote_def startsWith_def)

lemma evaluateExpr_quoted:
  assumes "\<forall>c\<in>set ws1. isSpace c" and "\<forall>c\<in>set ws2. isSpace c"
    and "isQuote q" and "isQuote q'"
  shows "evaluateExpr rt (JStr (ws1 @ q # body @ q' # ws2)) m = JStr body"
proof -
  have t: "trim (ws1 @ q # body @ q' # ws2) = q # body @ [q']"
    using assms by (rule trim_quoted)
  have "startsWith (q # body @ [q']) [CHR 0x27] \<or> startsWith (q # body @ [q']) [CHR 0x22]"
    using assms(3) by (rule startsWith_quote)
  then show ?thesis
    by (auto simp: evaluateExpr_def t Let_def stripQuotes_quoted [OF assms(3,4)])
qed

lemma evaluateExpr_color:
  assumes "startsWith (trim s) ''#'' \<or> startsWith (trim s) ''rgb'' \<or> startsWith (trim s) ''hsl''"
    and "\<not> isQuote (last (trim s))"
  shows "evaluateExpr rt (JStr s) m = JStr (trim s)"
proof -
  from assms(1) have ne: "trim s \<noteq> []" and h: "\<not> isQuote (hd (trim s))"
    by (auto simp: startsWith_def isQuote_def split: list.splits) (cases "trim s"; simp)+
  have "stripQuotes (trim s) = trim s"
    using ne h assms(2) by (rule stripQuotes_unquoted)
  then show ?thesis
    unfolding evaluateExpr_def using assms(1) by (simp add: Let_def)
qed

text \<open>
  C7. \<open>evaluateExpr\<close> returns \<open>undefined\<close>, \<open>null\<close>, a boolean and a number unchanged. A
  string that begins with a quote character, \<open>#\<close>, \<open>rgb\<close> or \<open>hsl\<close> (as it stands, or once
  trimmed) is returned trimmed with its outer quotes removed, whatever the runtime: it is
  not evaluated. In particular a string in quotes, with white space around it or not, is
  returned as what stands between the two outer quotes, inner quotes kept; and a colour
  literal that does not end in a quote is returned trimmed and otherwise unchanged. For
  any other string, when the evaluation throws, the string itself is returned.
\<close>

theorem evaluateExpr_contract:
  "evaluateExpr rt JUndefined m = JUndefined \<and>
   evaluateExpr rt JNull m = JNull \<and>
   evaluateExpr rt (JBool b) m = JBool b \<and>
   evaluateExpr rt (JNum n) m = JNum n \<and>
   (startsWith s [CHR 0x27] \<or> startsWith s [CHR 0x22] \<or> startsWith s ''#'' \<or>
    startsWith s ''rgb'' \<or> startsWith s ''hsl''
      \<longrightarrow> evaluateExpr rt (JStr s) m = JStr (stripQuotes (trim s))) \<and>
   (startsWith (trim s) [CHR 0x27] \<or> startsWith (trim s) [CHR 0x22] \<or>
    startsWith (trim s) ''#'' \<or> startsWith (trim s) ''rgb'' \<or> startsWith (trim s) ''hsl''
      \<longrightarrow> evaluateExpr rt (JStr s) m = JStr (stripQuotes (trim s))) \<and>
   ((\<forall>c\<in>set pre. isSpace c) \<and> (\<forall>c\<in>set post. isSpace c) \<and> isQuote q \<and> isQuote q'
      \<longrightarrow> evaluateExpr rt (JStr (pre @ q # body @ q' # post)) m = JStr body) \<and>
   ((startsWith (trim s) ''#'' \<or> startsWith (trim s) ''rgb'' \<or> startsWith (trim s) ''hsl'') \<and>
    \<not> isQuote (last (trim s))
      \<longrightarrow> evaluateExpr rt (JStr s) m = JStr (trim s)) \<and>
   (\<not> (startsWith (trim s) [CHR 0x27] \<or> startsWith (trim s) [CHR 0x22] \<or>
       startsWith (trim s) ''#'' \<or> startsWith (trim s) ''rgb'' \<or>
       startsWith (trim s) ''hsl'') \<and> jsFunction rt s m = None
      \<longrightarrow> evaluateExpr rt (JStr s) m = JStr s)"
proof -
  have raw: "startsWith (trim s) p" if "startsWith s p" "p \<noteq> []" "\<forall>c\<in>set p. \<not> isSpace c" for p
    using that trim_keeps_prefix by blast
  have q1: "startsWith s [CHR 0x27] \<Longrightarrow> startsWith (trim s) [CHR 0x27]"
    by (rule raw) (simp_all add: isSpace_def)
  have q2: "startsWith s [CHR 0x22] \<Longrightarrow> startsWith (trim s) [CHR 0x22]"
    by (rule raw) (simp_all add: isSpace_def)
  have q3: "startsWith s ''#'' \<Longrightarrow> startsWith (trim s) ''#''"
    by (rule raw) (simp_all add: isSpace_def)
  have q4: "startsWith s ''rgb'' \<Longrightarrow> startsWith (trim s) ''rgb''"
    by (rule raw) (simp_all add: isSpace_def)
  have q5: "startsWith s ''hsl'' \<Longrightarrow> startsWith (trim s) ''hsl''"
    by (rule raw) (simp_all add: isSpace_def)
  have lit: "evaluateExpr rt (JStr s) m = JStr (stripQuotes (trim s))"
    if "startsWith (trim s) [CHR 0x27] \<or> startsWith (trim s) [CHR 0x22] \<or>
        startsWith (trim s) ''#'' \<or> startsWith (trim s) ''rgb'' \<or> startsWith (trim s) ''hsl''"
    using that unfolding evaluateExpr_def by (simp add: Let_def)
  have fallback: "evaluateExpr rt (JStr s) m = JStr s"
    if "\<not> (startsWith (trim s) [CHR 0x27] \<or> startsWith (trim s) [CHR 0x22] \<or>
        startsWith (trim s) ''#'' \<or> startsWith (trim s) ''rgb'' \<or> startsWith (trim s) ''hsl'') \<and>
        jsFunction rt s m = None"
    using that unfolding evaluateExpr_def by (simp add: Let_def)
  have quoted: "evaluateExpr rt (JStr (pre @ q # body @ q' # post)) m = JStr body"
    if "(\<forall>c\<in>set pre. isSpace c) \<and> (\<forall>c\<in>set post. isSpace c) \<and> isQuote q \<and> isQuote q'"
    using that by (intro evaluateExpr_quoted) simp_all
  have colour: "evaluateExpr rt (JStr s) m = JStr (trim s)"
    if "(startsWith (trim s) ''#'' \<or> startsWith (trim s) ''rgb'' \<or>
         startsWith (trim s) ''hsl'') \<and> \<not> isQuote (last (trim s))"
    using that by (intro evaluateExpr_color) simp_all
  have ident: "evaluateExpr rt JUndefined m = JUndefined" "evaluateExpr rt JNull m = JNull"
    "evaluateExpr rt (JBool b) m = JBool b" "evaluateExpr rt (JNum n) m = JNum n"
    by (simp_all add: evaluateExpr_def)
  have first: "evaluateExpr rt (JStr s) m = JStr (stripQuotes (trim s))"
    if "startsWith s [CHR 0x27] \<or> startsWith s [CHR 0x22] \<or> startsWith s ''#'' \<or>
        startsWith s ''rgb'' \<or> startsWith s ''hsl''"
  proof (rule lit)
    show "startsWith (trim s) [CHR 0x27] \<or> startsWith (trim s) [CHR 0x22] \<or>
        startsWith (trim s) ''#'' \<or> startsWith (trim s) ''rgb'' \<or> startsWith (trim s) ''hsl''"
      using that q1 q2 q3 q4 q5 by blast
  qed
  show ?thesis
    apply (intro conjI impI)
            apply (rule ident(1))
           apply (rule ident(2))
          apply (rule ident(3))
         apply (rule ident(4))
        apply (erule first)
       apply (erule lit)
      apply (erule quoted)
     apply (erule colour)
    apply (erule fallback)
    done
qed

theorem evaluateExpr_contract_witness:
  "isSpace (CHR 0x20) \<and> isQuote (CHR 0x27) \<and>
   evaluateExpr exampleRuntime (JStr ('' '' @ CHR 0x27 # ''red'' @ CHR 0x27 # []))
     (exampleModel 2) = JStr ''red'' \<and>
   startsWith ''#ff0000'' ''#'' \<and> startsWith (trim ''#ff0000'') ''#'' \<and>
   \<not> isQuote (last (trim ''#ff0000'')) \<and>
   evaluateExpr exampleRuntime (JStr ''#ff0000'') (exampleModel 2) = JStr ''#ff0000'' \<and>
   \<not> startsWith (trim '' b +'') ''#'' \<and>
   jsFunction exampleRuntime '' b +'' (exampleModel 2) = None \<and>
   evaluateExpr exampleRuntime (JStr '' b +'') (exampleModel 2) = JStr '' b +''"
proof -
  have sp: "(\<forall>c\<in>set '' ''. isSpace c) \<and> (\<forall>c\<in>set ([]::string). isSpace c) \<and>
      isQuote (CHR 0x27) \<and> isQuote (CHR 0x27)"
    by (simp add: isSpace_def isQuote_def)
  have tr: "trim ''#ff0000'' = ''#ff0000''" "trim '' b +'' = ''b +''"
    by (simp_all add: trim_def isSpace_def)
  have col: "(startsWith (trim ''#ff0000'') ''#'' \<or> startsWith (trim ''#ff0000'') ''rgb'' \<or>
      startsWith (trim ''#ff0000'') ''hsl'') \<and> \<not> isQuote (last (trim ''#ff0000''))"
    by (simp add: tr startsWith_def isQuote_def)
  have oth: "\<not> (startsWith (trim '' b +'') [CHR 0x27] \<or> startsWith (trim '' b +'') [CHR 0x22] \<or>
       startsWith (trim '' b +'') ''#'' \<or> startsWith (trim '' b +'') ''rgb'' \<or>
       startsWith (trim '' b +'') ''hsl'') \<and>
       jsFunction exampleRuntime '' b +'' (exampleModel 2) = None"
    by (simp add: tr startsWith_def exampleRuntime_def)
  note A = evaluateExpr_contract [where rt = exampleRuntime and m = "exampleModel 2"
      and pre = "'' ''" and post = "[]" and q = "CHR 0x27" and q' = "CHR 0x27"
      and body = "''red''" and s = "''#ff0000''"]
  note B = evaluateExpr_contract [where rt = exampleRuntime and m = "exampleModel 2"
      and s = "'' b +''"]
  have a: "evaluateExpr exampleRuntime (JStr ('' '' @ CHR 0x27 # ''red'' @ CHR 0x27 # []))
     (exampleModel 2) = JStr ''red''"
    using A [THEN conjunct2, THEN conjunct2, THEN conjunct2, THEN conjunct2, THEN conjunct2,
        THEN conjunct2, THEN conjunct1] sp by (rule mp)
  have b: "evaluateExpr exampleRuntime (JStr ''#ff0000'') (exampleModel 2) = JStr ''#ff0000''"
    using A [THEN conjunct2, THEN conjunct2, THEN conjunct2, THEN conjunct2, THEN conjunct2,
        THEN conjunct2, THEN conjunct2, THEN conjunct1, THEN mp, OF col] tr(1) by simp
  have c: "evaluateExpr exampleRuntime (JStr '' b +'') (exampleModel 2) = JStr '' b +''"
    using B [THEN conjunct2, THEN conjunct2, THEN conjunct2, THEN conjunct2, THEN conjunct2,
        THEN conjunct2, THEN conjunct2, THEN conjunct2] oth by (rule mp)
  show ?thesis
    using sp col oth a b c by (simp add: startsWith_def tr)
qed

section \<open>Properties of the trajectory engine\<close>

declare rk4Loop.simps [simp del]
declare dotsLoop.simps [simp del]

lemma rk4Loop_length:
  "length (rk4Loop fn sc i s acc) = length acc + nat (steps fn - i)"
proof (induction fn sc i s acc rule: rk4Loop.induct)
  case (1 fn sc i s acc)
  show ?case
  proof (cases "i < steps fn")
    case True
    then have "length (rk4Loop fn sc i s acc) = Suc (length acc) + nat (steps fn - (i + 1))"
      using "1.IH" [OF True refl] by (subst rk4Loop.simps) (simp add: Let_def)
    with True show ?thesis by simp
  next
    case False
    then show ?thesis by (subst rk4Loop.simps) simp
  qed
qed

lemma rk4Loop_prefix: "take (length acc) (rk4Loop fn sc i s acc) = acc"
proof (induction fn sc i s acc rule: rk4Loop.induct)
  case (1 fn sc i s acc)
  show ?case
  proof (cases "i < steps fn")
    case True
    let ?s = "rk4Step fn s sc (dt fn)"
    have "take (Suc (length acc)) (rk4Loop fn sc (i + 1) ?s (acc @ [?s])) = acc @ [?s]"
      using "1.IH" [OF True refl] by simp
    then have "take (length acc) (take (Suc (length acc)) (rk4Loop fn sc (i + 1) ?s (acc @ [?s]))) = acc"
      by simp
    then have "take (length acc) (rk4Loop fn sc (i + 1) ?s (acc @ [?s])) = acc"
      by (simp add: min_def)
    with True show ?thesis by (subst rk4Loop.simps) (simp add: Let_def)
  next
    case False
    then show ?thesis by (subst rk4Loop.simps) simp
  qed
qed

lemma rk4Loop_first: "rk4Loop fn sc i s [st] ! 0 = st"
proof -
  have "take (length [st]) (rk4Loop fn sc i s [st]) = [st]" by (rule rk4Loop_prefix)
  then have "take 1 (rk4Loop fn sc i s [st]) ! 0 = st" by simp
  then show ?thesis by simp
qed

lemma generateData_Inr:
  assumes "formulaCompiles rt m (dxdtDef fn)" and "formulaCompiles rt m (dydtDef fn)"
  obtains fx fy fn2 st d where
    "fn2 = fn\<lparr> fnScope := Some \<lparr> params = currentParamValues m,
                                  calcs = currentCalcValues m,
                                  colors = currentColors m \<rparr>,
                 dxdtCompiled := Some fx, dydtCompiled := Some fy \<rparr>"
    "st = \<lparr> sx = (case map_of (currentParamValues m) ''px'' of
                     Some v \<Rightarrow> v | None \<Rightarrow> fst (initial fn)),
             sy = (case map_of (currentParamValues m) ''py'' of
                     Some v \<Rightarrow> v | None \<Rightarrow> snd (initial fn)) \<rparr>"
    "d = rk4Loop fn2 \<lparr> params = currentParamValues m, calcs = currentCalcValues m,
                       colors = currentColors m \<rparr> 0 st [st]"
    "generateData rt m fn = Inr (d, fn2\<lparr> data := d, version := version fn + 1 \<rparr>)"
proof -
  let ?sc = "\<lparr> params = currentParamValues m, calcs = currentCalcValues m,
                colors = currentColors m \<rparr>"
  from assms(1) obtain strx fx where
    x: "updateFunctionString rt (dxdtDef fn) ?sc = Inr strx" "mathCompile rt strx = Inr fx"
    unfolding formulaCompiles_def by (auto split: sum.splits)
  from assms(2) obtain stry fy where
    y: "updateFunctionString rt (dydtDef fn) ?sc = Inr stry" "mathCompile rt stry = Inr fy"
    unfolding formulaCompiles_def by (auto split: sum.splits)
  let ?fn2 = "fn\<lparr> fnScope := Some ?sc, dxdtCompiled := Some fx, dydtCompiled := Some fy \<rparr>"
  let ?st = "\<lparr> sx = (case map_of (currentParamValues m) ''px'' of
                     Some v \<Rightarrow> v | None \<Rightarrow> fst (initial fn)),
                sy = (case map_of (currentParamValues m) ''py'' of
                     Some v \<Rightarrow> v | None \<Rightarrow> snd (initial fn)) \<rparr>"
  have "generateData rt m fn =
          Inr (rk4Loop ?fn2 ?sc 0 ?st [?st],
               ?fn2\<lparr> data := rk4Loop ?fn2 ?sc 0 ?st [?st], version := version fn + 1 \<rparr>)"
    unfolding generateData_def
    by (simp add: Let_def x y cong: option.case_cong)
  then show ?thesis by (rule that [OF refl refl refl])
qed

lemma generateData_compiled:
  assumes "generateData rt m fn = Inr (d, fn')"
  shows "formulaCompiles rt m (dxdtDef fn)" and "formulaCompiles rt m (dydtDef fn)"
  using assms unfolding generateData_def formulaCompiles_def
  by (auto simp: Let_def split: sum.splits)

lemma generateData_result:
  assumes "generateData rt m fn = Inr (d, fn')"
  shows "d \<noteq> []" and "data fn' = d" and "animation fn' = animation fn"
    and "showDots fn' = showDots fn" and "version fn' = version fn + 1"
    and "lastParams fn' = lastParams fn" and "lastInitial fn' = lastInitial fn"
proof -
  obtain fx fy fn2 st d' where
    r: "fn2 = fn\<lparr> fnScope := Some \<lparr> params = currentParamValues m,
                                  calcs = currentCalcValues m,
                                  colors = currentColors m \<rparr>,
                 dxdtCompiled := Some fx, dydtCompiled := Some fy \<rparr>"
    "st = \<lparr> sx = (case map_of (currentParamValues m) ''px'' of
                     Some v \<Rightarrow> v | None \<Rightarrow> fst (initial fn)),
             sy = (case map_of (currentParamValues m) ''py'' of
                     Some v \<Rightarrow> v | None \<Rightarrow> snd (initial fn)) \<rparr>"
    "d' = rk4Loop fn2 \<lparr> params = currentParamValues m, calcs = currentCalcValues m,
                       colors = currentColors m \<rparr> 0 st [st]"
    "generateData rt m fn = Inr (d', fn2\<lparr> data := d', version := version fn + 1 \<rparr>)"
    by (rule generateData_Inr [OF generateData_compiled [OF assms]])
  from r(4) assms have e: "d = d'" "fn' = fn2\<lparr> data := d', version := version fn + 1 \<rparr>"
    by simp_all
  have "length d' = 1 + nat (steps fn2 - 0)" unfolding r(3) by (simp add: rk4Loop_length)
  then show "d \<noteq> []" unfolding e by auto
  show "data fn' = d" "animation fn' = animation fn" "showDots fn' = showDots fn"
    "version fn' = version fn + 1" "lastParams fn' = lastParams fn"
    "lastInitial fn' = lastInitial fn"
    unfolding e r(1) by simp_all
qed

lemma generateData_Inl:
  assumes "\<not> (formulaCompiles rt m (dxdtDef fn) \<and> formulaCompiles rt m (dydtDef fn))"
  shows "\<exists>e fn'. generateData rt m fn = Inl (e, fn') \<and> data fn' = data fn \<and> version fn' = version fn"
  using assms unfolding formulaCompiles_def generateData_def
  by (auto simp: Let_def split: sum.splits)

lemma deriv_frame:
  "dxdtCompiled f = dxdtCompiled g \<Longrightarrow> dydtCompiled f = dydtCompiled g \<Longrightarrow>
   deriv f s sc = deriv g s sc"
  by (simp add: deriv_def)

lemma rk4Step_frame:
  assumes "dxdtCompiled f = dxdtCompiled g" and "dydtCompiled f = dydtCompiled g"
  shows "rk4Step f s sc h = rk4Step g s sc h"
  unfolding rk4Step_def using deriv_frame [OF assms] by simp

lemma rk4Loop_frame:
  assumes "steps f = steps g" and "dt f = dt g"
    and "dxdtCompiled f = dxdtCompiled g" and "dydtCompiled f = dydtCompiled g"
  shows "rk4Loop f sc i s acc = rk4Loop g sc i s acc"
  using assms
proof (induction f sc i s acc rule: rk4Loop.induct)
  case (1 f sc i s acc)
  have step: "rk4Step f s sc (dt f) = rk4Step g s sc (dt g)"
    using rk4Step_frame [OF "1.prems"(3,4)] "1.prems"(2) by simp
  show ?case
  proof (cases "i < steps f")
    case True
    have "rk4Loop f sc (i + 1) (rk4Step f s sc (dt f)) (acc @ [rk4Step f s sc (dt f)]) =
          rk4Loop g sc (i + 1) (rk4Step f s sc (dt f)) (acc @ [rk4Step f s sc (dt f)])"
      using "1.IH" [OF True refl] "1.prems" by simp
    with True step "1.prems"(1) show ?thesis
      by (subst rk4Loop.simps, subst (2) rk4Loop.simps) (simp add: Let_def)
  next
    case False
    with "1.prems"(1) show ?thesis
      by (subst rk4Loop.simps, subst (2) rk4Loop.simps) simp
  qed
qed

lemma generateData_frame:
  assumes "dxdtDef f = dxdtDef g" and "dydtDef f = dydtDef g" and "steps f = steps g"
    and "dt f = dt g" and "initial f = initial g"
    and "generateData rt m f = Inr (d, f')"
  shows "\<exists>g'. generateData rt m g = Inr (d, g')"
proof -
  let ?sc = "\<lparr> params = currentParamValues m, calcs = currentCalcValues m,
                colors = currentColors m \<rparr>"
  from assms(6) obtain strx fx stry fy where
    c: "updateFunctionString rt (dxdtDef f) ?sc = Inr strx" "mathCompile rt strx = Inr fx"
       "updateFunctionString rt (dydtDef f) ?sc = Inr stry" "mathCompile rt stry = Inr fy"
    unfolding generateData_def by (auto simp: Let_def split: sum.splits)
  let ?st = "\<lparr> sx = (case map_of (currentParamValues m) ''px'' of
                          Some v \<Rightarrow> v | None \<Rightarrow> fst (initial f)),
                  sy = (case map_of (currentParamValues m) ''py'' of
                          Some v \<Rightarrow> v | None \<Rightarrow> snd (initial f)) \<rparr>"
  let ?f2 = "f\<lparr> fnScope := Some ?sc, dxdtCompiled := Some fx, dydtCompiled := Some fy \<rparr>"
  let ?g2 = "g\<lparr> fnScope := Some ?sc, dxdtCompiled := Some fx, dydtCompiled := Some fy \<rparr>"
  have df: "d = rk4Loop ?f2 ?sc 0 ?st [?st]"
    using assms(6) unfolding generateData_def
    by (simp add: Let_def c cong: option.case_cong)
  have "rk4Loop ?f2 ?sc 0 ?st [?st] = rk4Loop ?g2 ?sc 0 ?st [?st]"
    by (rule rk4Loop_frame) (simp_all add: assms)
  with df have dg: "d = rk4Loop ?g2 ?sc 0 ?st [?st]" by simp
  have "generateData rt m g = Inr (rk4Loop ?g2 ?sc 0 ?st [?st],
          ?g2\<lparr> data := rk4Loop ?g2 ?sc 0 ?st [?st], version := version g + 1 \<rparr>)"
    unfolding generateData_def using c assms(1,2,5)
    by (simp add: Let_def cong: option.case_cong)
  with dg show ?thesis by simp
qed

lemma exampleFn_fields:
  "steps exampleFn = 2" "dxdtDef exampleFn = ''1''" "dydtDef exampleFn = ''0''"
  "initial exampleFn = (Num 0, Num 0)" "data exampleFn = []" "version exampleFn = 0"
  "dt exampleFn = Num (1 / 10)" "animation exampleFn = JBool True"
  by (simp_all add: exampleFn_def newODESystemFunction_def exampleDef_def setDefault_def
      evaluateExpr_def)

lemma example_compiles:
  "formulaCompiles exampleRuntime m ''1''" "formulaCompiles exampleRuntime m ''0''"
  "\<not> formulaCompiles exampleRuntime m ''1 +''"
  by (simp_all add: formulaCompiles_def exampleRuntime_def)

lemma showDots_example: "showDots exampleFn = JBool True"
  by (simp add: exampleFn_def newODESystemFunction_def exampleDef_def setDefault_def
      evaluateExpr_def trim_def isSpace_def startsWith_def exampleRuntime_def exampleModel_def)

lemma settledFn_fields:
  "data settledFn = [\<lparr> sx = Num 0, sy = Num 0 \<rparr>, \<lparr> sx = Num 1, sy = Num 0 \<rparr>]"
  "lastInitial settledFn = (Num 0, Num 0)" "initial settledFn = (Num 0, Num 0)"
  "lastParams settledFn = [(''a'', Num 2), (''b'', Num 5)]" "version settledFn = 1"
  "dots settledFn = [Some \<lparr> sx = Num 7, sy = Num 7 \<rparr>]" "showDots settledFn = JBool True"
  "dt settledFn = Num (1 / 10)"
  by (simp_all add: settledFn_def exampleFn_fields showDots_example)

text \<open>
  C1. With a step count that is not negative and two formulas that compile,
  \<open>generateData\<close> returns, stores the array it returns, the array has \<open>steps + 1\<close> states,
  and its first state is the resolved initial condition: in each coordinate the parameter
  \<open>px\<close> (\<open>py\<close>) when the model defines it, the static initial value otherwise.
\<close>

theorem generateData_trajectory:
  assumes "0 \<le> steps fn"
    and "formulaCompiles rt m (dxdtDef fn)" and "formulaCompiles rt m (dydtDef fn)"
  shows "\<exists>d fn'. generateData rt m fn = Inr (d, fn') \<and> data fn' = d \<and>
           int (length d) = steps fn + 1 \<and>
           d ! 0 = \<lparr> sx = (case map_of (currentParamValues m) ''px'' of
                              Some v \<Rightarrow> v | None \<Rightarrow> fst (initial fn)),
                      sy = (case map_of (currentParamValues m) ''py'' of
                              Some v \<Rightarrow> v | None \<Rightarrow> snd (initial fn)) \<rparr>"
proof -
  obtain fx fy fn2 st d where
    r: "fn2 = fn\<lparr> fnScope := Some \<lparr> params = currentParamValues m,
                                  calcs = currentCalcValues m,
                                  colors = currentColors m \<rparr>,
                 dxdtCompiled := Some fx, dydtCompiled := Some fy \<rparr>"
    "st = \<lparr> sx = (case map_of (currentParamValues m) ''px'' of
                     Some v \<Rightarrow> v | None \<Rightarrow> fst (initial fn)),
             sy = (case map_of (currentParamValues m) ''py'' of
                     Some v \<Rightarrow> v | None \<Rightarrow> snd (initial fn)) \<rparr>"
    "d = rk4Loop fn2 \<lparr> params = currentParamValues m, calcs = currentCalcValues m,
                       colors = currentColors m \<rparr> 0 st [st]"
    "generateData rt m fn = Inr (d, fn2\<lparr> data := d, version := version fn + 1 \<rparr>)"
    by (rule generateData_Inr [OF assms(2,3)])
  have "steps fn2 = steps fn" unfolding r(1) by simp
  then have len: "int (length d) = steps fn + 1"
    unfolding r(3) using assms(1) by (simp add: rk4Loop_length)
  have first: "d ! 0 = st" unfolding r(3) by (rule rk4Loop_first)
  show ?thesis
    using r(4) len first unfolding r(2) by simp
qed

theorem generateData_trajectory_witness:
  "0 \<le> steps exampleFn \<and>
   formulaCompiles exampleRuntime pxModel (dxdtDef exampleFn) \<and>
   formulaCompiles exampleRuntime pxModel (dydtDef exampleFn) \<and>
   (\<exists>d fn'. generateData exampleRuntime pxModel exampleFn = Inr (d, fn') \<and> data fn' = d \<and>
      int (length d) = 3 \<and> d ! 0 = \<lparr> sx = Num 3, sy = Num 0 \<rparr>)"
proof -
  have h1: "0 \<le> steps exampleFn" by (simp add: exampleFn_fields)
  have h2: "formulaCompiles exampleRuntime pxModel (dxdtDef exampleFn)"
    by (simp add: exampleFn_fields example_compiles)
  have h3: "formulaCompiles exampleRuntime pxModel (dydtDef exampleFn)"
    by (simp add: exampleFn_fields example_compiles)
  show ?thesis
    using h1 h2 h3 generateData_trajectory [OF h1 h2 h3]
    by (simp add: exampleFn_fields pxModel_def)
qed

section \<open>Properties of the update gate\<close>

lemma generateDots_frame:
  "data (snd (generateDots rt f)) = data f" "version (snd (generateDots rt f)) = version f"
  "hasChanged (snd (generateDots rt f)) = hasChanged f" "showDots (snd (generateDots rt f)) = showDots f"
  "lastParams (snd (generateDots rt f)) = lastParams f"
  "lastInitial (snd (generateDots rt f)) = lastInitial f"
  by (simp_all add: generateDots_def Let_def)

lemma update_not_stale:
  assumes "\<not> force" and "data fn \<noteq> []"
    and "\<not> strictNe (fst (lastInitial fn))
             (case map_of (currentParamValues m) ''px'' of
                Some v \<Rightarrow> v | None \<Rightarrow> fst (initial fn))"
    and "\<not> strictNe (snd (lastInitial fn))
             (case map_of (currentParamValues m) ''py'' of
                Some v \<Rightarrow> v | None \<Rightarrow> snd (initial fn))"
    and "\<forall>k\<in>set (map fst (currentParamValues m)).
           \<not> strictNeProp (map_of (currentParamValues m) k) (map_of (lastParams fn) k)"
  shows "\<exists>fn'. update rt m force fn = Inr fn' \<and> \<not> hasChanged fn' \<and>
           version fn' = version fn \<and> data fn' = data fn \<and> dots fn' = dots fn \<and>
           lastParams fn' = lastParams fn \<and> lastInitial fn' = lastInitial fn"
proof -
  have np: "\<not> list_ex (\<lambda>k. strictNeProp (map_of (currentParamValues m) k)
                        (map_of (lastParams fn) k)) (map fst (currentParamValues m))"
    using assms(5) unfolding list_ex_iff by blast
  show ?thesis
    unfolding update_def superUpdate_def
    using assms(1-4) np by (simp add: Let_def cong: option.case_cong)
qed

lemma update_stale:
  assumes "formulaCompiles rt m (dxdtDef fn)" and "formulaCompiles rt m (dydtDef fn)"
    and "force \<or> data fn = [] \<or>
         strictNe (fst (lastInitial fn))
             (case map_of (currentParamValues m) ''px'' of
                Some v \<Rightarrow> v | None \<Rightarrow> fst (initial fn)) \<or>
         strictNe (snd (lastInitial fn))
             (case map_of (currentParamValues m) ''py'' of
                Some v \<Rightarrow> v | None \<Rightarrow> snd (initial fn)) \<or>
         (\<exists>k\<in>set (map fst (currentParamValues m)).
           strictNeProp (map_of (currentParamValues m) k) (map_of (lastParams fn) k))"
  shows "\<exists>fn'. update rt m force fn = Inr fn' \<and> hasChanged fn' \<and>
           version fn' = version fn + 1 \<and>
           (\<exists>g. generateData rt m fn = Inr (data fn', g)) \<and>
           lastParams fn' = currentParamValues m \<and>
           lastInitial fn' =
             (case map_of (currentParamValues m) ''px'' of
                Some v \<Rightarrow> v | None \<Rightarrow> fst (initial fn),
              case map_of (currentParamValues m) ''py'' of
                Some v \<Rightarrow> v | None \<Rightarrow> snd (initial fn))"
proof -
  let ?sc = "\<lparr> params = currentParamValues m, calcs = currentCalcValues m,
                colors = currentColors m \<rparr>"
  let ?x0 = "case map_of (currentParamValues m) ''px'' of
                Some v \<Rightarrow> v | None \<Rightarrow> fst (initial fn)"
  let ?y0 = "case map_of (currentParamValues m) ''py'' of
                Some v \<Rightarrow> v | None \<Rightarrow> snd (initial fn)"
  define fn9 where "fn9 =
    fn\<lparr> fnScope := Some ?sc,
        showDots := evaluateExpr rt (showDots fn) m,
        dotSpacing := evaluateExpr rt (dotSpacing fn) m,
        dotRadius := evaluateExpr rt (dotRadius fn) m,
        dotColor := evaluateExpr rt (dotColor fn) m,
        animation := evaluateExpr rt (animation fn) m,
        speed := evaluateExpr rt (speed fn) m,
        movingDotColor := evaluateExpr rt (movingDotColor fn) m,
        movingDotRadius := evaluateExpr rt (movingDotRadius fn) m,
        lastInitial := (?x0, ?y0), lastParams := currentParamValues m \<rparr>"
  have same: "dxdtDef fn9 = dxdtDef fn" "dydtDef fn9 = dydtDef fn" "steps fn9 = steps fn"
    "dt fn9 = dt fn" "initial fn9 = initial fn" "version fn9 = version fn"
    "lastParams fn9 = currentParamValues m" "lastInitial fn9 = (?x0, ?y0)"
    by (simp_all add: fn9_def)
  have "formulaCompiles rt m (dxdtDef fn9)" "formulaCompiles rt m (dydtDef fn9)"
    using assms(1,2) by (simp_all add: same)
  then obtain d fn10 where
    g: "generateData rt m fn9 = Inr (d, fn10)"
    by (rule generateData_Inr)
  have f10: "data fn10 = d" "version fn10 = version fn9 + 1" "lastParams fn10 = lastParams fn9"
         "lastInitial fn10 = lastInitial fn9"
    using generateData_result [OF g] by simp_all
  from generateData_frame [OF same(1-5) g] obtain g' where
    orig: "generateData rt m fn = Inr (d, g')" by blast
  have st: "force \<or>
         strictNe (fst (lastInitial fn)) ?x0 \<or> strictNe (snd (lastInitial fn)) ?y0 \<or>
         list_ex (\<lambda>k. strictNeProp (map_of (currentParamValues m) k)
                        (map_of (lastParams fn) k)) (map fst (currentParamValues m)) \<or>
         data fn = []"
    using assms(3) unfolding list_ex_iff by blast
  define fn12 where
    "fn12 = (if truthy (showDots (fn10\<lparr> data := d \<rparr>))
             then snd (generateDots rt (fn10\<lparr> data := d \<rparr>)) else fn10\<lparr> data := d \<rparr>)"
  have u: "update rt m force fn =
             Inr (fn12\<lparr> hasChanged := True, graph := map_option (\<lambda>_. True) (graph fn12) \<rparr>)"
    unfolding update_def superUpdate_def fn12_def
    using st g [unfolded fn9_def] by (simp add: Let_def cong: option.case_cong)
  have f12: "data fn12 = d" "version fn12 = version fn + 1"
    "lastParams fn12 = currentParamValues m" "lastInitial fn12 = (?x0, ?y0)"
    by (simp_all add: fn12_def generateDots_frame f10 same)
  show ?thesis
    unfolding u using f12 orig by simp
qed

text \<open>
  C3. With two formulas that compile, \<open>update(force)\<close> returns; it regenerates the
  trajectory, bumps \<open>version\<close> and reports a change exactly when \<open>force\<close> is set, or the
  trajectory is empty, or a coordinate of the resolved initial condition is \<open>!==\<close> the
  recorded one, or some current parameter is \<open>!==\<close> its recorded value (a name the record
  lacks reads \<open>undefined\<close> there and differs); otherwise it reports no change and leaves
  \<open>version\<close> and the trajectory as they were.
\<close>

theorem update_staleness:
  assumes "formulaCompiles rt m (dxdtDef fn)" and "formulaCompiles rt m (dydtDef fn)"
  shows "\<exists>fn'. update rt m force fn = Inr fn' \<and>
           (if force \<or> data fn = [] \<or>
               strictNe (fst (lastInitial fn))
                 (case map_of (currentParamValues m) ''px'' of
                    Some v \<Rightarrow> v | None \<Rightarrow> fst (initial fn)) \<or>
               strictNe (snd (lastInitial fn))
                 (case map_of (currentParamValues m) ''py'' of
                    Some v \<Rightarrow> v | None \<Rightarrow> snd (initial fn)) \<or>
               (\<exists>k\<in>set (map fst (currentParamValues m)).
                  strictNeProp (map_of (currentParamValues m) k) (map_of (lastParams fn) k))
            then hasChanged fn' \<and> version fn' = version fn + 1 \<and>
                 (\<exists>g. generateData rt m fn = Inr (data fn', g))
            else \<not> hasChanged fn' \<and> version fn' = version fn \<and> data fn' = data fn)"
proof (cases "force \<or> data fn = [] \<or>
               strictNe (fst (lastInitial fn))
                 (case map_of (currentParamValues m) ''px'' of
                    Some v \<Rightarrow> v | None \<Rightarrow> fst (initial fn)) \<or>
               strictNe (snd (lastInitial fn))
                 (case map_of (currentParamValues m) ''py'' of
                    Some v \<Rightarrow> v | None \<Rightarrow> snd (initial fn)) \<or>
               (\<exists>k\<in>set (map fst (currentParamValues m)).
                  strictNeProp (map_of (currentParamValues m) k) (map_of (lastParams fn) k))")
  case True
  from update_stale [OF assms True] obtain fn' where
    "update rt m force fn = Inr fn'" "hasChanged fn'" "version fn' = version fn + 1"
    "\<exists>g. generateData rt m fn = Inr (data fn', g)"
    by blast
  with True show ?thesis by (intro exI [of _ fn']) (simp only: if_True simp_thms)
next
  case False
  then have "\<exists>fn'. update rt m force fn = Inr fn' \<and> \<not> hasChanged fn' \<and>
           version fn' = version fn \<and> data fn' = data fn \<and> dots fn' = dots fn \<and>
           lastParams fn' = lastParams fn \<and> lastInitial fn' = lastInitial fn"
    by (intro update_not_stale) blast+
  then obtain fn' where
    "update rt m force fn = Inr fn'" "\<not> hasChanged fn'" "version fn' = version fn"
    "data fn' = data fn"
    by blast
  with False show ?thesis by (intro exI [of _ fn']) (simp only: if_False simp_thms)
qed

theorem update_staleness_witness:
  "formulaCompiles exampleRuntime (exampleModel 2) (dxdtDef exampleFn) \<and>
   formulaCompiles exampleRuntime (exampleModel 2) (dydtDef exampleFn) \<and>
   (\<exists>fn'. update exampleRuntime (exampleModel 2) False exampleFn = Inr fn' \<and>
      hasChanged fn' \<and> version fn' = 1 \<and>
      (\<exists>g. generateData exampleRuntime (exampleModel 2) exampleFn = Inr (data fn', g)))"
proof -
  have h1: "formulaCompiles exampleRuntime (exampleModel 2) (dxdtDef exampleFn)"
    by (simp add: exampleFn_fields example_compiles)
  have h2: "formulaCompiles exampleRuntime (exampleModel 2) (dydtDef exampleFn)"
    by (simp add: exampleFn_fields example_compiles)
  show ?thesis
    using h1 h2 update_staleness [OF h1 h2, of False]
    by (simp add: exampleFn_fields)
qed

text \<open>
  C9. Only the names of the current parameter object are compared: with a trajectory that
  is not empty, the resolved initial condition as recorded and every current parameter
  equal to its recorded value, \<open>update(false)\<close> reports no change and leaves \<open>version\<close>,
  the trajectory and the recorded parameters as they were, whatever further names the
  record holds.
\<close>

theorem update_ignores_removed_params:
  assumes "data fn \<noteq> []"
    and "\<not> strictNe (fst (lastInitial fn))
             (case map_of (currentParamValues m) ''px'' of
                Some v \<Rightarrow> v | None \<Rightarrow> fst (initial fn))"
    and "\<not> strictNe (snd (lastInitial fn))
             (case map_of (currentParamValues m) ''py'' of
                Some v \<Rightarrow> v | None \<Rightarrow> snd (initial fn))"
    and "\<forall>k\<in>set (map fst (currentParamValues m)).
           \<not> strictNeProp (map_of (currentParamValues m) k) (map_of (lastParams fn) k)"
  shows "\<exists>fn'. update rt m False fn = Inr fn' \<and> \<not> hasChanged fn' \<and>
           version fn' = version fn \<and> data fn' = data fn \<and>
           lastParams fn' = lastParams fn"
proof -
  have "\<exists>fn'. update rt m False fn = Inr fn' \<and> \<not> hasChanged fn' \<and>
           version fn' = version fn \<and> data fn' = data fn \<and> dots fn' = dots fn \<and>
           lastParams fn' = lastParams fn \<and> lastInitial fn' = lastInitial fn"
    using assms by (intro update_not_stale) simp_all
  then show ?thesis by blast
qed

theorem update_ignores_removed_params_witness:
  "data settledFn \<noteq> [] \<and>
   \<not> strictNe (fst (lastInitial settledFn)) (fst (initial settledFn)) \<and>
   \<not> strictNe (snd (lastInitial settledFn)) (snd (initial settledFn)) \<and>
   map fst (currentParamValues (exampleModel 2)) = [''a''] \<and>
   map fst (lastParams settledFn) = [''a'', ''b''] \<and>
   \<not> strictNeProp (map_of (currentParamValues (exampleModel 2)) ''a'')
        (map_of (lastParams settledFn) ''a'') \<and>
   (\<exists>fn'. update exampleRuntime (exampleModel 2) False settledFn = Inr fn' \<and>
      \<not> hasChanged fn' \<and> version fn' = 1 \<and> data fn' = data settledFn \<and>
      lastParams fn' = [(''a'', Num 2), (''b'', Num 5)])"
  using update_ignores_removed_params [of settledFn "exampleModel 2" exampleRuntime]
  by (simp add: settledFn_fields exampleModel_def)

section \<open>Properties of the dot sampler\<close>

text \<open>
  C10. With show-dots falsy or an empty trajectory, \<open>generateDots\<close> returns the empty array
  and leaves the object, its \<open>dots\<close> included, as it was. Only the sampling branch assigns
  \<open>dots\<close>: what it assigned is still there after a later call with show-dots falsy or the
  trajectory emptied.
\<close>

theorem generateDots_keeps_stale_dots:
  "(\<not> truthy (showDots fn) \<or> data fn = [] \<longrightarrow> generateDots rt fn = ([], fn)) \<and>
   (truthy (showDots fn) \<and> data fn \<noteq> [] \<longrightarrow>
      dots (snd (generateDots rt fn)) = fst (generateDots rt fn) \<and>
      (\<forall>v d. \<not> truthy v \<or> d = [] \<longrightarrow>
         fst (generateDots rt ((snd (generateDots rt fn))\<lparr> showDots := v, data := d \<rparr>)) = [] \<and>
         dots (snd (generateDots rt ((snd (generateDots rt fn))\<lparr> showDots := v, data := d \<rparr>))) =
           fst (generateDots rt fn)))"
  by (auto simp: generateDots_def Let_def)

theorem generateDots_keeps_stale_dots_witness:
  "\<not> truthy (showDots (settledFn\<lparr> showDots := JBool False \<rparr>)) \<and>
   generateDots exampleRuntime (settledFn\<lparr> showDots := JBool False \<rparr>) =
     ([], settledFn\<lparr> showDots := JBool False \<rparr>) \<and>
   dots (settledFn\<lparr> showDots := JBool False \<rparr>) = [Some \<lparr> sx = Num 7, sy = Num 7 \<rparr>] \<and>
   truthy (showDots settledFn) \<and> data settledFn \<noteq> [] \<and>
   dots (snd (generateDots exampleRuntime settledFn)) =
     fst (generateDots exampleRuntime settledFn)"
  using generateDots_keeps_stale_dots
      [where fn = "settledFn\<lparr> showDots := JBool False \<rparr>" and rt = exampleRuntime]
    generateDots_keeps_stale_dots [where fn = settledFn and rt = exampleRuntime]
  by (simp add: settledFn_fields)

lemma ceil_div_dvd:
  fixes n k :: nat
  assumes "0 < k"
  shows "(n + k - 1) div k = (if k dvd n then n div k else Suc (n div k))"
proof (cases n)
  case 0
  with assms show ?thesis by simp
next
  case (Suc n')
  have "(n' + k) div k = Suc (n' div k)" using assms by simp
  then show ?thesis
    unfolding Suc by (simp add: div_Suc dvd_eq_mod_eq_0)
qed

lemma ceil_div_step:
  fixes m k :: nat
  assumes "0 < k" and "0 < m"
  shows "(m + k - 1) div k = Suc ((m - k + k - 1) div k)"
proof -
  from assms(2) obtain m' where m: "m = Suc m'" by (cases m) simp_all
  have l: "(m + k - 1) div k = Suc (m' div k)" unfolding m using assms(1) by simp
  have "(m - k + k - 1) div k = m' div k"
  proof (cases "k \<le> m")
    case True
    then show ?thesis unfolding m by simp
  next
    case False
    then have "m - k + k - 1 = k - 1" "m' < k" unfolding m by simp_all
    then show ?thesis using assms(1) by simp
  qed
  with l show ?thesis by simp
qed

lemma filter_dvd_upt:
  fixes k :: nat
  assumes "0 < k"
  shows "filter (\<lambda>j. k dvd j) [0..<n] = map (\<lambda>q. q * k) [0..<(n + k - 1) div k]"
proof (induction n)
  case 0
  show ?case using assms by simp
next
  case (Suc n)
  have c: "(Suc n + k - 1) div k = Suc (n div k)" using assms by simp
  show ?case
  proof (cases "k dvd n")
    case True
    then have "(n + k - 1) div k = n div k" using ceil_div_dvd [OF assms, of n] by simp
    with Suc True show ?thesis unfolding c by simp
  next
    case False
    then have "(n + k - 1) div k = Suc (n div k)" using ceil_div_dvd [OF assms, of n] by simp
    with Suc False show ?thesis unfolding c by simp
  qed
qed

lemma arrayAt_nat: "i < length xs \<Longrightarrow> arrayAt xs (real i) = Some (xs ! i)"
  by (simp add: arrayAt_def)

lemma dotsLoop_nat:
  fixes k :: nat
  assumes "0 < k"
  shows "dotsLoop d (real k) (real i) =
           map (\<lambda>q. Some (d ! (i + q * k))) [0..<(length d - i + k - 1) div k]"
proof (induction "length d - i" arbitrary: i rule: less_induct)
  case less
  show ?case
  proof (cases "i < length d")
    case False
    then have "(length d - i + k - 1) div k = 0" using assms by simp
    moreover have "dotsLoop d (real k) (real i) = []"
      using False by (subst dotsLoop.simps) simp
    ultimately show ?thesis by simp
  next
    case True
    have k1: "1 \<le> real k" using assms by simp
    have unroll: "dotsLoop d (real k) (real i) = Some (d ! i) # dotsLoop d (real k) (real (i + k))"
      using True k1 by (subst dotsLoop.simps) (simp add: arrayAt_nat)
    have "length d - (i + k) < length d - i" using True assms by simp
    from less [OF this]
    have IH: "dotsLoop d (real k) (real (i + k)) =
           map (\<lambda>q. Some (d ! (i + k + q * k))) [0..<(length d - (i + k) + k - 1) div k]" .
    have cnt: "(length d - i + k - 1) div k = Suc ((length d - (i + k) + k - 1) div k)"
      using ceil_div_step [OF assms, of "length d - i"] True by simp
    have shift: "map (\<lambda>q. Some (d ! (i + q * k))) [0..<Suc c] =
          Some (d ! i) # map (\<lambda>q. Some (d ! (i + k + q * k))) [0..<c]" for c
    proof -
      have "[0..<Suc c] = 0 # map Suc [0..<c]"
        by (simp add: upt_conv_Cons map_Suc_upt del: upt_Suc)
      then show ?thesis by (simp add: comp_def add.assoc del: upt_Suc)
    qed
    show ?thesis unfolding unroll IH cnt shift ..
  qed
qed

lemma dotsLoop_first:
  assumes "1 \<le> sp" and "d \<noteq> []"
  shows "hd (dotsLoop d sp 0) = Some (d ! 0)"
  using assms by (subst dotsLoop.simps) (simp add: arrayAt_def)

lemma dotStride_numeric:
  assumes "dotSpacing fn = JNum (Num r)"
  shows "dotStride rt fn =
           (if r = 0 then 10
            else if r < 1 then max 1 (of_int \<lfloor>jsTimes rt (real (length (data fn))) r\<rfloor>)
            else r)"
  using assms by (simp add: dotStride_def Let_def)

lemma dotStride_ge_1:
  assumes "\<forall>s. dotSpacing fn \<noteq> JStr s" and "\<forall>n. dotSpacing fn \<noteq> JObj n"
  shows "1 \<le> dotStride rt fn"
proof (cases "dotSpacing fn")
  case (JNum v)
  then show ?thesis
  proof (cases v)
    case (Num r)
    with JNum have "dotSpacing fn = JNum (Num r)" by simp
    then show ?thesis by (simp add: dotStride_numeric)
  next
    case NaN
    with JNum show ?thesis by (simp add: dotStride_def)
  qed
next
  case (JBool b)
  then show ?thesis by (cases b) (simp_all add: dotStride_def)
next
  case (JStr s)
  with assms(1) show ?thesis by simp
next
  case (JObj n)
  with assms(2) show ?thesis by simp
qed (simp_all add: dotStride_def)

lemma dotsFn_fields:
  "data (dotsFn r) = hundredStates" "dotSpacing (dotsFn r) = JNum (Num r)"
  "showDots (dotsFn r) = JBool True" "length hundredStates = 100"
  by (simp_all add: dotsFn_def settledFn_fields hundredStates_def)

text \<open>
  C5, as stated, fails: with the spacing 0, which is no fraction in (0,1), the stride is
  the default 10 and not the spacing. No product is taken on this input.
\<close>

theorem generateDots_stride_counterexample:
  "truthy (showDots (dotsFn 0)) \<and> length (data (dotsFn 0)) = 100 \<and>
   dotSpacing (dotsFn 0) = JNum (Num 0) \<and>
   dotStride exampleRuntime (dotsFn 0) = 10 \<and> claimedStride 100 0 = 0 \<and>
   dotStride exampleRuntime (dotsFn 0) \<noteq> claimedStride (length (data (dotsFn 0))) 0"
  by (simp add: dotsFn_fields dotStride_def claimedStride_def)

text \<open>
  C5, amended. For a trajectory that is not empty, with dots enabled and a numeric spacing:
  the spacing 0 is replaced by the default 10; a spacing below 1, a fraction in (0,1) or a
  negative number, gives the stride \<open>max(1, floor(p))\<close>, where \<open>p\<close> is the product of length
  and spacing as the engine computes it in double precision; a spacing of at least 1 is
  the stride. This is the stride of the specification for a spacing of at least 1, and
  for a fraction in (0,1) whose product with the length is exact. The first dot is the
  state at index 0, and when the stride is an integer the dots are exactly the states at
  the multiples of the stride below the length, in order; they are what \<open>dots\<close> holds
  afterwards.
\<close>

theorem generateDots_stride:
  assumes "truthy (showDots fn)" and "data fn \<noteq> []" and "dotSpacing fn = JNum (Num r)"
  shows "dotStride rt fn =
           (if r = 0 then 10
            else if r < 1 then max 1 (of_int \<lfloor>jsTimes rt (real (length (data fn))) r\<rfloor>)
            else r) \<and>
         (1 \<le> r \<or>
          0 < r \<and> r < 1 \<and> jsTimes rt (real (length (data fn))) r = real (length (data fn)) * r
            \<longrightarrow> dotStride rt fn = claimedStride (length (data fn)) r) \<and>
         hd (fst (generateDots rt fn)) = Some (data fn ! 0) \<and>
         (\<forall>k. 0 < k \<and> dotStride rt fn = real k \<longrightarrow>
            fst (generateDots rt fn) =
              map (\<lambda>i. Some (data fn ! i)) (filter (\<lambda>i. k dvd i) [0..<length (data fn)])) \<and>
         dots (snd (generateDots rt fn)) = fst (generateDots rt fn)"
proof (intro conjI allI impI)
  show "dotStride rt fn =
           (if r = 0 then 10
            else if r < 1 then max 1 (of_int \<lfloor>jsTimes rt (real (length (data fn))) r\<rfloor>)
            else r)"
    using assms(3) by (rule dotStride_numeric)
  show "dotStride rt fn = claimedStride (length (data fn)) r"
    if "1 \<le> r \<or>
        0 < r \<and> r < 1 \<and> jsTimes rt (real (length (data fn))) r = real (length (data fn)) * r"
    using that unfolding dotStride_numeric [OF assms(3)] claimedStride_def by auto
  have g: "generateDots rt fn =
             (dotsLoop (data fn) (dotStride rt fn) 0,
              fn\<lparr> dots := dotsLoop (data fn) (dotStride rt fn) 0 \<rparr>)"
    using assms(1,2) by (simp add: generateDots_def Let_def)
  show "hd (fst (generateDots rt fn)) = Some (data fn ! 0)"
    unfolding g using dotsLoop_first [OF dotStride_ge_1 assms(2), of fn rt] assms(3) by simp
  show "dots (snd (generateDots rt fn)) = fst (generateDots rt fn)"
    unfolding g by simp
  fix k :: nat
  assume k: "0 < k \<and> dotStride rt fn = real k"
  then have pos: "0 < k" and st: "dotStride rt fn = real k" by simp_all
  have "dotsLoop (data fn) (real k) (real 0) =
          map (\<lambda>q. Some (data fn ! (0 + q * k))) [0..<(length (data fn) - 0 + k - 1) div k]"
    using pos by (rule dotsLoop_nat)
  then have "dotsLoop (data fn) (real k) 0 =
          map (\<lambda>i. Some (data fn ! i)) (map (\<lambda>q. q * k) [0..<(length (data fn) + k - 1) div k])"
    by (simp add: comp_def)
  also have "\<dots> = map (\<lambda>i. Some (data fn ! i)) (filter (\<lambda>i. k dvd i) [0..<length (data fn)])"
    unfolding filter_dvd_upt [OF pos] ..
  finally show "fst (generateDots rt fn) =
              map (\<lambda>i. Some (data fn ! i)) (filter (\<lambda>i. k dvd i) [0..<length (data fn)])"
    unfolding g st by simp
qed

lemma example_indices:
  "filter (\<lambda>i. (25::nat) dvd i) [0..<100] = [0, 25, 50, 75]"
  "filter (\<lambda>i. (10::nat) dvd i) [0..<100] = [0, 10, 20, 30, 40, 50, 60, 70, 80, 90]"
  by code_simp+

theorem generateDots_stride_witness:
  "truthy (showDots (dotsFn (1 / 4))) \<and> data (dotsFn (1 / 4)) \<noteq> [] \<and>
   dotSpacing (dotsFn (1 / 4)) = JNum (Num (1 / 4)) \<and> (0::real) < 1 / 4 \<and> (1::real) / 4 < 1 \<and>
   jsTimes exampleRuntime (real (length (data (dotsFn (1 / 4))))) (1 / 4) =
     real (length (data (dotsFn (1 / 4)))) * (1 / 4) \<and>
   dotStride exampleRuntime (dotsFn (1 / 4)) = claimedStride 100 (1 / 4) \<and>
   dotStride exampleRuntime (dotsFn (1 / 4)) = real 25 \<and>
   fst (generateDots exampleRuntime (dotsFn (1 / 4))) =
     map (\<lambda>i. Some (hundredStates ! i)) [0, 25, 50, 75] \<and>
   truthy (showDots (dotsFn 10)) \<and> data (dotsFn 10) \<noteq> [] \<and>
   dotSpacing (dotsFn 10) = JNum (Num 10) \<and> (1::real) \<le> 10 \<and>
   dotStride exampleRuntime (dotsFn 10) = real 10 \<and>
   fst (generateDots exampleRuntime (dotsFn 10)) =
     map (\<lambda>i. Some (hundredStates ! i)) [0, 10, 20, 30, 40, 50, 60, 70, 80, 90]"
proof -
  have h: "truthy (showDots (dotsFn r))" "data (dotsFn r) \<noteq> []"
    "dotSpacing (dotsFn r) = JNum (Num r)" for r
    by (simp_all add: dotsFn_fields hundredStates_def)
  have ex: "jsTimes exampleRuntime (real (length (data (dotsFn (1 / 4))))) (1 / 4) =
     real (length (data (dotsFn (1 / 4)))) * (1 / 4)"
    by (simp add: exampleRuntime_def)
  have s25: "dotStride exampleRuntime (dotsFn (1 / 4)) = real 25"
    by (simp add: dotStride_def dotsFn_fields exampleRuntime_def)
  have s10: "dotStride exampleRuntime (dotsFn 10) = real 10"
    by (simp add: dotStride_def dotsFn_fields)
  note A = generateDots_stride [OF h, where r = "1 / 4" and rt = exampleRuntime]
  note B = generateDots_stride [OF h, where r = 10 and rt = exampleRuntime]
  have c: "dotStride exampleRuntime (dotsFn (1 / 4)) = claimedStride 100 (1 / 4)"
    using A [THEN conjunct2, THEN conjunct1] ex by (simp add: dotsFn_fields)
  have a: "fst (generateDots exampleRuntime (dotsFn (1 / 4))) =
             map (\<lambda>i. Some (hundredStates ! i)) [0, 25, 50, 75]"
    using A [THEN conjunct2, THEN conjunct2, THEN conjunct2, THEN conjunct1, rule_format, of 25]
      s25 by (simp only: dotsFn_fields example_indices) simp
  have b: "fst (generateDots exampleRuntime (dotsFn 10)) =
             map (\<lambda>i. Some (hundredStates ! i)) [0, 10, 20, 30, 40, 50, 60, 70, 80, 90]"
    using B [THEN conjunct2, THEN conjunct2, THEN conjunct2, THEN conjunct1, rule_format, of 10]
      s10 by (simp only: dotsFn_fields example_indices) simp
  show ?thesis
    using h [of "1 / 4"] h [of 10] ex c s25 s10 a b by simp
qed

section \<open>Point lookup, failures and attribute evaluation\<close>

lemma evaluate_index:
  assumes "dt fn = Num h" and "0 < h" and "data fn \<noteq> []"
  shows "0 \<le> t \<Longrightarrow>
           evaluate fn (Num t) =
             Some (data fn ! nat (min \<lfloor>t / h\<rfloor> (int (length (data fn)) - 1)))"
    and "t < 0 \<Longrightarrow> evaluate fn (Num t) = None"
proof -
  let ?n = "length (data fn)"
  let ?i = "min (of_int \<lfloor>t / h\<rfloor>) (real ?n - 1)"
  have n: "0 < ?n" using assms(3) by simp
  have ev: "evaluate fn (Num t) = arrayAt (data fn) ?i"
    using assms(1,2) by (simp add: evaluate_def)
  have int_i: "?i = of_int (min \<lfloor>t / h\<rfloor> (int ?n - 1))"
    using n by (simp add: min_def)
  {
    assume t: "0 \<le> t"
    then have "0 \<le> t / h" using assms(2) by simp
    then have f0: "0 \<le> \<lfloor>t / h\<rfloor>" by simp
    let ?j = "min \<lfloor>t / h\<rfloor> (int ?n - 1)"
    have j: "0 \<le> ?j" "?j < int ?n" using f0 n by simp_all
    have "arrayAt (data fn) (of_int ?j) = Some (data fn ! nat ?j)"
      unfolding arrayAt_def using j by simp
    then show "evaluate fn (Num t) = Some (data fn ! nat ?j)"
      unfolding ev int_i .
  }
  {
    assume t: "t < 0"
    then have "t / h < 0" using assms(2) by (simp add: divide_neg_pos)
    then have "\<lfloor>t / h\<rfloor> < 0" by linarith
    then have "real_of_int \<lfloor>t / h\<rfloor> < 0" by simp
    then have "?i < 0" by (rule min.strict_coboundedI1)
    then have neg: "\<not> 0 \<le> ?i" by (simp only: not_le)
    show "evaluate fn (Num t) = None"
      unfolding ev arrayAt_def by (simp only: neg simp_thms if_False)
  }
qed

text \<open>
  C4. \<open>evaluate(t)\<close> takes the smaller of \<open>floor(t / dt)\<close> and the last index and reads
  the array there; nothing bounds the index from below. On a trajectory that is not empty,
  with \<open>dt\<close> one tenth, the time -1 gives the index -10 and the result is \<open>undefined\<close>, not
  the first state; the time 0 gives the first state. (For every time that is not negative
  the index is the clamped one, the quotient being taken exactly: lemma \<open>evaluate_index\<close>.)
\<close>

theorem evaluate_negative_time:
  "dt settledFn = Num (1 / 10) \<and> data settledFn \<noteq> [] \<and>
   evaluate settledFn (Num (- 1)) = None \<and>
   evaluate settledFn (Num 0) = Some (data settledFn ! 0)"
  by (simp add: evaluate_def settledFn_fields arrayAt_def)

lemma deriv_total:
  "deriv fn s sc =
     (case dxdtCompiled fn of None \<Rightarrow> Num 0
      | Some f \<Rightarrow> (case f (params sc @ [(''x'', sx s), (''y'', sy s)]) of
                     Some v \<Rightarrow> v | None \<Rightarrow> Num 0),
      case dydtCompiled fn of None \<Rightarrow> Num 0
      | Some f \<Rightarrow> (case f (params sc @ [(''x'', sx s), (''y'', sy s)]) of
                     Some v \<Rightarrow> v | None \<Rightarrow> Num 0))"
  by (simp add: deriv_def Let_def)

lemma generateData_throws:
  assumes "\<not> formulaCompiles rt m (dxdtDef fn) \<or> \<not> formulaCompiles rt m (dydtDef fn)"
  shows "\<exists>e. thrownBy (generateData rt m fn) = Some e"
  using assms unfolding formulaCompiles_def generateData_def thrownBy_def
  by (auto simp: Let_def split: sum.splits)

lemma generateData_attributes:
  fixes r defines "f \<equiv> (case r of Inl (e, g) \<Rightarrow> g | Inr (d, g) \<Rightarrow> g)"
  assumes "r = generateData rt m fn"
  shows "showDots f = showDots fn" "dotSpacing f = dotSpacing fn" "dotRadius f = dotRadius fn"
    "dotColor f = dotColor fn" "animation f = animation fn" "speed f = speed fn"
    "movingDotColor f = movingDotColor fn" "movingDotRadius f = movingDotRadius fn"
    "dxdtDef f = dxdtDef fn" "dydtDef f = dydtDef fn"
  unfolding f_def assms(2) generateData_def
  by (simp_all add: Let_def split: sum.splits)

lemma generateDots_attributes:
  "showDots (snd (generateDots rt f)) = showDots f" "dotSpacing (snd (generateDots rt f)) = dotSpacing f"
  "dotRadius (snd (generateDots rt f)) = dotRadius f" "dotColor (snd (generateDots rt f)) = dotColor f"
  "animation (snd (generateDots rt f)) = animation f" "speed (snd (generateDots rt f)) = speed f"
  "movingDotColor (snd (generateDots rt f)) = movingDotColor f"
  "movingDotRadius (snd (generateDots rt f)) = movingDotRadius f"
  by (simp_all add: generateDots_def Let_def)

lemma update_unfold:
  fixes rt m force fn
  defines "x0 \<equiv> (case map_of (currentParamValues m) ''px'' of
                Some v \<Rightarrow> v | None \<Rightarrow> fst (initial fn))"
    and "y0 \<equiv> (case map_of (currentParamValues m) ''py'' of
                Some v \<Rightarrow> v | None \<Rightarrow> snd (initial fn))"
  defines "fn8 \<equiv>
    fn\<lparr> fnScope := Some \<lparr> params = currentParamValues m, calcs = currentCalcValues m,
                colors = currentColors m \<rparr>,
        showDots := evaluateExpr rt (showDots fn) m,
        dotSpacing := evaluateExpr rt (dotSpacing fn) m,
        dotRadius := evaluateExpr rt (dotRadius fn) m,
        dotColor := evaluateExpr rt (dotColor fn) m,
        animation := evaluateExpr rt (animation fn) m,
        speed := evaluateExpr rt (speed fn) m,
        movingDotColor := evaluateExpr rt (movingDotColor fn) m,
        movingDotRadius := evaluateExpr rt (movingDotRadius fn) m \<rparr>"
  shows "update rt m force fn =
      (if force \<or> strictNe (fst (lastInitial fn)) x0 \<or> strictNe (snd (lastInitial fn)) y0 \<or>
          list_ex (\<lambda>k. strictNeProp (map_of (currentParamValues m) k)
                        (map_of (lastParams fn) k)) (map fst (currentParamValues m)) \<or>
          data fn = []
       then (case generateData rt m
                    (fn8\<lparr> lastInitial := (x0, y0), lastParams := currentParamValues m \<rparr>) of
               Inl e \<Rightarrow> Inl e
             | Inr (d, fn10) \<Rightarrow>
                 (let fn11 = fn10\<lparr> data := d \<rparr>;
                      fn12 = (if truthy (showDots fn11) then snd (generateDots rt fn11) else fn11)
                  in Inr (fn12\<lparr> hasChanged := True,
                                 graph := map_option (\<lambda>_. True) (graph fn12) \<rparr>)))
       else Inr (fn8\<lparr> hasChanged := False \<rparr>))"
  unfolding update_def superUpdate_def fn8_def x0_def y0_def
  by (simp add: Let_def cong: option.case_cong sum.case_cong if_cong)

lemma update_attributes:
  fixes rt m force fn
  defines "f \<equiv> objectAfter (update rt m force fn)"
  shows "showDots f = evaluateExpr rt (showDots fn) m \<and>
         dotSpacing f = evaluateExpr rt (dotSpacing fn) m \<and>
         dotRadius f = evaluateExpr rt (dotRadius fn) m \<and>
         dotColor f = evaluateExpr rt (dotColor fn) m \<and>
         animation f = evaluateExpr rt (animation fn) m \<and>
         speed f = evaluateExpr rt (speed fn) m \<and>
         movingDotColor f = evaluateExpr rt (movingDotColor fn) m \<and>
         movingDotRadius f = evaluateExpr rt (movingDotRadius fn) m"
proof -
  let ?x0 = "case map_of (currentParamValues m) ''px'' of
                Some v \<Rightarrow> v | None \<Rightarrow> fst (initial fn)"
  let ?y0 = "case map_of (currentParamValues m) ''py'' of
                Some v \<Rightarrow> v | None \<Rightarrow> snd (initial fn)"
  define fn8 where "fn8 =
    fn\<lparr> fnScope := Some \<lparr> params = currentParamValues m, calcs = currentCalcValues m,
                colors = currentColors m \<rparr>,
        showDots := evaluateExpr rt (showDots fn) m,
        dotSpacing := evaluateExpr rt (dotSpacing fn) m,
        dotRadius := evaluateExpr rt (dotRadius fn) m,
        dotColor := evaluateExpr rt (dotColor fn) m,
        animation := evaluateExpr rt (animation fn) m,
        speed := evaluateExpr rt (speed fn) m,
        movingDotColor := evaluateExpr rt (movingDotColor fn) m,
        movingDotRadius := evaluateExpr rt (movingDotRadius fn) m \<rparr>"
  define fn9 where "fn9 = fn8\<lparr> lastInitial := (?x0, ?y0), lastParams := currentParamValues m \<rparr>"
  define stale where "stale \<longleftrightarrow> force \<or>
         strictNe (fst (lastInitial fn)) ?x0 \<or> strictNe (snd (lastInitial fn)) ?y0 \<or>
         list_ex (\<lambda>k. strictNeProp (map_of (currentParamValues m) k)
                        (map_of (lastParams fn) k)) (map fst (currentParamValues m)) \<or>
         data fn = []"
  note u = update_unfold [of rt m force fn, folded fn8_def, folded fn9_def stale_def]
  have s8: "showDots fn8 = evaluateExpr rt (showDots fn) m"
    "dotSpacing fn8 = evaluateExpr rt (dotSpacing fn) m"
    "dotRadius fn8 = evaluateExpr rt (dotRadius fn) m"
    "dotColor fn8 = evaluateExpr rt (dotColor fn) m"
    "animation fn8 = evaluateExpr rt (animation fn) m"
    "speed fn8 = evaluateExpr rt (speed fn) m"
    "movingDotColor fn8 = evaluateExpr rt (movingDotColor fn) m"
    "movingDotRadius fn8 = evaluateExpr rt (movingDotRadius fn) m"
    by (simp_all add: fn8_def)
  have s9: "showDots fn9 = showDots fn8" "dotSpacing fn9 = dotSpacing fn8"
    "dotRadius fn9 = dotRadius fn8" "dotColor fn9 = dotColor fn8"
    "animation fn9 = animation fn8" "speed fn9 = speed fn8"
    "movingDotColor fn9 = movingDotColor fn8" "movingDotRadius fn9 = movingDotRadius fn8"
    by (simp_all add: fn9_def)
  show ?thesis
  proof (cases stale)
    case False
    then have "f = fn8\<lparr> hasChanged := False \<rparr>"
      unfolding f_def u by (simp add: objectAfter_def)
    then show ?thesis by (simp add: s8)
  next
    case True
    show ?thesis
    proof (cases "generateData rt m fn9")
      case (Inl p)
      obtain e g where p: "p = (e, g)" by (cases p)
      have f: "f = g" unfolding f_def u using True Inl p by (simp add: objectAfter_def)
      show ?thesis
        unfolding f
        using generateData_attributes(1-8) [OF refl, of rt m fn9] unfolding Inl p
        by (simp add: s9 s8)
    next
      case (Inr p)
      obtain d g where p: "p = (d, g)" by (cases p)
      let ?g = "g\<lparr> data := d \<rparr>"
      let ?h = "if truthy (showDots ?g) then snd (generateDots rt ?g) else ?g"
      have f: "f = ?h\<lparr> hasChanged := True, graph := map_option (\<lambda>_. True) (graph ?h) \<rparr>"
        unfolding f_def u using True Inr p by (simp add: objectAfter_def Let_def)
      show ?thesis
        unfolding f
        using generateData_attributes(1-8) [OF refl, of rt m fn9] unfolding Inr p
        by (simp add: s9 s8 generateDots_attributes)
    qed
  qed
qed

lemma update_throws:
  assumes "\<not> formulaCompiles rt m (dxdtDef fn) \<or> \<not> formulaCompiles rt m (dydtDef fn)"
    and "force \<or> data fn = []"
  shows "\<exists>e. thrownBy (update rt m force fn) = Some e"
proof -
  let ?x0 = "case map_of (currentParamValues m) ''px'' of
                Some v \<Rightarrow> v | None \<Rightarrow> fst (initial fn)"
  let ?y0 = "case map_of (currentParamValues m) ''py'' of
                Some v \<Rightarrow> v | None \<Rightarrow> snd (initial fn)"
  define fn9 where "fn9 =
    fn\<lparr> fnScope := Some \<lparr> params = currentParamValues m, calcs = currentCalcValues m,
                colors = currentColors m \<rparr>,
        showDots := evaluateExpr rt (showDots fn) m,
        dotSpacing := evaluateExpr rt (dotSpacing fn) m,
        dotRadius := evaluateExpr rt (dotRadius fn) m,
        dotColor := evaluateExpr rt (dotColor fn) m,
        animation := evaluateExpr rt (animation fn) m,
        speed := evaluateExpr rt (speed fn) m,
        movingDotColor := evaluateExpr rt (movingDotColor fn) m,
        movingDotRadius := evaluateExpr rt (movingDotRadius fn) m \<rparr>
      \<lparr> lastInitial := (?x0, ?y0), lastParams := currentParamValues m \<rparr>"
  have "dxdtDef fn9 = dxdtDef fn" "dydtDef fn9 = dydtDef fn" by (simp_all add: fn9_def)
  with assms(1) have
    "\<not> (formulaCompiles rt m (dxdtDef fn9) \<and> formulaCompiles rt m (dydtDef fn9))"
    by simp
  then obtain e g where g: "generateData rt m fn9 = Inl (e, g)"
    using generateData_Inl by blast
  have "update rt m force fn = Inl (e, g)"
    unfolding update_unfold using assms(2) g [unfolded fn9_def] by auto
  then show ?thesis by (simp add: thrownBy_def)
qed

lemma badFn_fields:
  "dxdtDef badFn = ''1 +''" "data badFn = []"
  by (simp_all add: badFn_def exampleFn_fields)

text \<open>
  C2. An evaluation failure of a compiled formula leaves the derivative 0 (lemma
  \<open>deriv_total\<close>: \<open>deriv\<close> always returns). A compilation failure is not recovered: when
  either formula does not compile, \<open>generateData\<close> throws, and so does \<open>update\<close> whenever
  \<open>force\<close> is set or the trajectory is empty.
\<close>

theorem compile_failure_propagates:
  assumes "\<not> formulaCompiles rt m (dxdtDef fn) \<or> \<not> formulaCompiles rt m (dydtDef fn)"
  shows "(\<exists>e. thrownBy (generateData rt m fn) = Some e) \<and>
         (force \<or> data fn = [] \<longrightarrow> (\<exists>e. thrownBy (update rt m force fn) = Some e))"
proof (intro conjI impI)
  show "\<exists>e. thrownBy (generateData rt m fn) = Some e"
    using assms by (rule generateData_throws)
  show "\<exists>e. thrownBy (update rt m force fn) = Some e" if "force \<or> data fn = []"
    using assms that by (rule update_throws)
qed

theorem compile_failure_propagates_witness:
  "\<not> formulaCompiles exampleRuntime (exampleModel 2) (dxdtDef badFn) \<and>
   data badFn = [] \<and>
   thrownBy (generateData exampleRuntime (exampleModel 2) badFn) = Some (Thrown ''SyntaxError'') \<and>
   (\<exists>e. thrownBy (update exampleRuntime (exampleModel 2) False badFn) = Some e)"
proof -
  have h: "\<not> formulaCompiles exampleRuntime (exampleModel 2) (dxdtDef badFn)"
    by (simp add: badFn_fields example_compiles)
  then have h': "\<not> formulaCompiles exampleRuntime (exampleModel 2) (dxdtDef badFn) \<or>
    \<not> formulaCompiles exampleRuntime (exampleModel 2) (dydtDef badFn)" ..
  have t: "thrownBy (generateData exampleRuntime (exampleModel 2) badFn) =
             Some (Thrown ''SyntaxError'')"
    by (simp add: generateData_def badFn_fields exampleRuntime_def thrownBy_def Let_def)
  show ?thesis
    using h t compile_failure_propagates [OF h', of False]
    by (simp add: badFn_fields)
qed

text \<open>
  C6. Every tick assigns to each of the eight attributes \<open>evaluateExpr\<close> of the value the
  attribute holds (lemma \<open>update_attributes\<close>), not of the expression it was configured
  with. So when the constructor's evaluation gave a value that is not a string, the
  attribute keeps that value through every sequence of ticks, whatever the models: the
  show-dots expression \<open>a > 1\<close>, evaluated to \<open>true\<close> with \<open>a = 2\<close> at construction, still
  holds \<open>true\<close> after ticks with \<open>a = 0\<close>, where the expression is \<open>false\<close>.
\<close>

theorem evaluated_attribute_is_frozen:
  assumes "\<forall>s. showDots (newODESystemFunction rt d) \<noteq> JStr s"
  shows "showDots (newODESystemFunction rt d) =
           evaluateExpr rt (setDefault (def_showDots d) (JBool False)) (def_model d) \<and>
         showDots (ticks rt ts (newODESystemFunction rt d)) = showDots (newODESystemFunction rt d)"
proof
  show "showDots (newODESystemFunction rt d) =
           evaluateExpr rt (setDefault (def_showDots d) (JBool False)) (def_model d)"
    by (simp add: newODESystemFunction_def)
  have keep: "showDots (ticks rt ts fn) = showDots fn" if "\<forall>s. showDots fn \<noteq> JStr s" for fn
    using that
  proof (induction ts arbitrary: fn)
    case Nil
    show ?case by simp
  next
    case (Cons t ts)
    obtain m force where t: "t = (m, force)" by (cases t)
    have id: "evaluateExpr rt (showDots fn) m = showDots fn"
      using Cons.prems by (cases "showDots fn") (simp_all add: evaluateExpr_def)
    have one: "showDots (objectAfter (update rt m force fn)) = showDots fn"
      using update_attributes [of rt m force fn] id by simp
    then have "\<forall>s. showDots (objectAfter (update rt m force fn)) \<noteq> JStr s"
      using Cons.prems by simp
    from Cons.IH [OF this] one show ?case unfolding t by simp
  qed
  from assms show "showDots (ticks rt ts (newODESystemFunction rt d)) =
      showDots (newODESystemFunction rt d)"
    by (rule keep)
qed

theorem evaluated_attribute_is_frozen_witness:
  "def_showDots exampleDef = Some (JStr ''a > 1'') \<and>
   (\<forall>s. showDots (newODESystemFunction exampleRuntime exampleDef) \<noteq> JStr s) \<and>
   showDots (newODESystemFunction exampleRuntime exampleDef) = JBool True \<and>
   showDots (ticks exampleRuntime [(exampleModel 0, False), (exampleModel 0, True)]
               (newODESystemFunction exampleRuntime exampleDef)) = JBool True \<and>
   evaluateExpr exampleRuntime (JStr ''a > 1'') (exampleModel 0) = JBool False"
proof -
  have v: "showDots (newODESystemFunction exampleRuntime exampleDef) = JBool True"
    using showDots_example by (simp add: exampleFn_def)
  then have h: "\<forall>s. showDots (newODESystemFunction exampleRuntime exampleDef) \<noteq> JStr s"
    by simp
  have e: "evaluateExpr exampleRuntime (JStr ''a > 1'') (exampleModel 0) = JBool False"
    by (simp add: evaluateExpr_def trim_def isSpace_def startsWith_def exampleRuntime_def
        exampleModel_def)
  have d: "def_showDots exampleDef = Some (JStr ''a > 1'')" by (simp add: exampleDef_def)
  show ?thesis
    using d h v e
      evaluated_attribute_is_frozen [OF h,
        of "[(exampleModel 0, False), (exampleModel 0, True)]"]
    by simp
qed

section \<open>Properties of the animation scheduler\<close>



























end
